theory Spec2Isabelle
  imports Main "HOL-Library.Finite_Map" "HOL-Library.AList"
begin

section \<open>JavaScript values\<close>

text \<open>
  The color hook works on plain JavaScript values: block attributes, the nested
  \<^verbatim>\<open>style\<close> object and block supports are objects whose properties are strings,
  booleans, nested objects or \<^verbatim>\<open>undefined\<close>. An object is a finite map from property
  names to values; a property that is present with the value \<^verbatim>\<open>undefined\<close> is different
  from a property that is absent, as in JavaScript.
\<close>

datatype jsval = Undefined | Bool bool | Str string | Obj "(string, jsval) fmap"

type_synonym obj = "(string, jsval) fmap"

text \<open>Truthiness, as tested by \<^verbatim>\<open>if (x)\<close>, \<^verbatim>\<open>!x\<close>, \<^verbatim>\<open>x ? a : b\<close> and \<^verbatim>\<open>x || y\<close>.\<close>

fun truthy :: "jsval \<Rightarrow> bool" where
  "truthy Undefined = False"
| "truthy (Bool b) = b"
| "truthy (Str s) = (s \<noteq> [])"
| "truthy (Obj m) = True"

text \<open>
  \<^verbatim>\<open>o?.k\<close>: reading property \<open>k\<close>. Reading through \<^verbatim>\<open>undefined\<close> gives \<^verbatim>\<open>undefined\<close>
  (optional chaining), and so does reading a property that an object, a string or a
  boolean does not have. The hook only reads the named properties \<^verbatim>\<open>style\<close>,
  \<^verbatim>\<open>color\<close>, \<^verbatim>\<open>text\<close>, \<^verbatim>\<open>background\<close>, \<^verbatim>\<open>gradient\<close>, \<^verbatim>\<open>gradients\<close>, none of which a
  string or a boolean has.
\<close>

fun js_get :: "jsval \<Rightarrow> string \<Rightarrow> jsval" where
  "js_get (Obj m) k = (case fmlookup m k of Some v \<Rightarrow> v | None \<Rightarrow> Undefined)"
| "js_get Undefined k = Undefined"
| "js_get (Bool b) k = Undefined"
| "js_get (Str s) k = Undefined"

text \<open>Decimal spelling of an array index, the property names of a string's characters.\<close>

fun decimal :: "nat \<Rightarrow> string" where
  "decimal n =
     (if n < 10 then [''0123456789'' ! n]
      else decimal (n div 10) @ [''0123456789'' ! (n mod 10)])"

declare decimal.simps [simp del]

text \<open>
  Object spread \<^verbatim>\<open>{ ...x }\<close>: the own enumerable properties of \<open>x\<close>. Spreading
  \<^verbatim>\<open>undefined\<close> or a boolean copies nothing; spreading a string copies its characters
  under their indices.
\<close>

fun spread :: "jsval \<Rightarrow> obj" where
  "spread (Obj m) = m"
| "spread Undefined = fmempty"
| "spread (Bool b) = fmempty"
| "spread (Str s) = fmap_of_list (zip (map decimal [0..<length s]) (map (\<lambda>c. Str [c]) s))"

section \<open>Collaborators outside the hook\<close>

text \<open>
  Modelled from the spec: \<^verbatim>\<open>cleanEmptyObject\<close> of \<^verbatim>\<open>./utils\<close> is imported by the hook but
  its file is not part of the sources. The spec (4.2, step 4 and the minimality
  invariant of 3) says that an empty \<^verbatim>\<open>styleOverride\<close> or \<^verbatim>\<open>styleOverride.color\<close>
  collapses to absent, leaving no residual empty container: nested objects are cleaned
  first, properties left without a value are dropped, and an object left without
  properties becomes \<^verbatim>\<open>undefined\<close>. A value that is not an object is returned as it is.
\<close>

primrec cleanEmptyObject :: "jsval \<Rightarrow> jsval" where
  "cleanEmptyObject Undefined = Undefined"
| "cleanEmptyObject (Bool b) = Bool b"
| "cleanEmptyObject (Str s) = Str s"
| "cleanEmptyObject (Obj m) =
     (let cleanedNestedObjects = fmmap cleanEmptyObject m;
          kept = fmfilter (\<lambda>k. fmlookup cleanedNestedObjects k \<noteq> Some Undefined)
                   cleanedNestedObjects
      in if kept = fmempty then Undefined else Obj kept)"

text \<open>
  Modelled from the spec: the palette and gradient catalogs and their lookups
  (\<^verbatim>\<open>getColorObjectByColorValue\<close> of \<^verbatim>\<open>../components/colors\<close>, \<^verbatim>\<open>getGradientSlugByValue\<close>
  and \<^verbatim>\<open>getGradientValueBySlug\<close> of \<^verbatim>\<open>../components/gradients\<close>) are imported by the
  hook but not part of the sources. The spec (3 and 4.1) describes a catalog as an
  ordered sequence of entries with a slug and a value, a reverse lookup by exact value
  match and a forward lookup by slug, both giving \<^verbatim>\<open>undefined\<close> on a miss. A lookup
  returns the first entry that matches. The slug of an entry is a string and may be
  empty; the handlers test the slug of the entry they find.
\<close>

record entry =
  entrySlug :: string
  entryValue :: string

type_synonym catalog = "entry list"

definition getColorObjectByColorValue :: "catalog \<Rightarrow> jsval \<Rightarrow> entry option" where
  "getColorObjectByColorValue colors colorValue =
     find (\<lambda>e. Str (entryValue e) = colorValue) colors"

definition getGradientSlugByValue :: "catalog \<Rightarrow> jsval \<Rightarrow> jsval" where
  "getGradientSlugByValue gradients v =
     (case find (\<lambda>e. Str (entryValue e) = v) gradients of
        None \<Rightarrow> Undefined
      | Some e \<Rightarrow> Str (entrySlug e))"

definition getGradientValueBySlug :: "catalog \<Rightarrow> jsval \<Rightarrow> jsval" where
  "getGradientValueBySlug gradients s =
     (case find (\<lambda>e. Str (entrySlug e) = s) gradients of
        None \<Rightarrow> Undefined
      | Some e \<Rightarrow> Str (entryValue e))"

text \<open>\<^verbatim>\<open>colorObject?.slug\<close> on the result of the reverse lookup.\<close>

definition slugOf :: "entry option \<Rightarrow> jsval" where
  "slugOf colorObject = (case colorObject of None \<Rightarrow> Undefined | Some e \<Rightarrow> Str (entrySlug e))"

section \<open>The change handlers of \<^verbatim>\<open>withBlockControls\<close>\<close>

text \<open>
  The state that the handlers of one mounted control read and write: the attributes of
  the props last delivered by the host, the ref \<^verbatim>\<open>localAttributes.current\<close>, and the
  calls made to \<^verbatim>\<open>props.setAttributes\<close>, oldest first.
\<close>

record controls =
  propsAttributes :: obj
  localAttributes :: obj
  setAttributesCalls :: "obj list"

text \<open>
  \<^verbatim>\<open>onChangeColor( name )( value )\<close>: the constants \<^verbatim>\<open>newStyle\<close> and
  \<^verbatim>\<open>newAttributes\<close>, computed from \<^verbatim>\<open>localAttributes.current\<close>. The raw value is
  written under \<open>name\<close> unless the reverse lookup gave an entry with a truthy slug.
\<close>

definition colorNewColor :: "catalog \<Rightarrow> obj \<Rightarrow> string \<Rightarrow> jsval \<Rightarrow> obj" where
  "colorNewColor colors current name v =
     fmupd name
       (if truthy (slugOf (getColorObjectByColorValue colors v)) then Undefined else v)
       (spread (js_get (js_get (Obj current) ''style'') ''color''))"

definition colorNewStyle :: "catalog \<Rightarrow> obj \<Rightarrow> string \<Rightarrow> jsval \<Rightarrow> jsval" where
  "colorNewStyle colors current name v =
     Obj (fmupd ''color'' (Obj (colorNewColor colors current name v))
           (spread (js_get (Obj current) ''style'')))"

definition colorNewAttributes :: "catalog \<Rightarrow> obj \<Rightarrow> string \<Rightarrow> jsval \<Rightarrow> obj" where
  "colorNewAttributes colors current name v =
     (let colorObject = getColorObjectByColorValue colors v;
          attributeName = name @ ''Color'';
          newStyle = colorNewStyle colors current name v;
          newNamedColor = (if truthy (slugOf colorObject) then slugOf colorObject else Undefined)
      in fmupd attributeName newNamedColor
           (fmupd ''style'' (cleanEmptyObject newStyle) fmempty))"

text \<open>
  \<^verbatim>\<open>onChangeGradient( value )\<close>: \<^verbatim>\<open>newStyle\<close> and \<^verbatim>\<open>newAttributes\<close> in its two
  branches, on the truthiness of the slug found for the value.
\<close>

definition gradientNewColor :: "catalog \<Rightarrow> obj \<Rightarrow> jsval \<Rightarrow> obj" where
  "gradientNewColor gradients current v =
     (if truthy (getGradientSlugByValue gradients v)
      then fmupd ''gradient'' Undefined
             (spread (js_get (js_get (Obj current) ''style'') ''color''))
      else fmupd ''gradient'' v
             (spread (js_get (js_get (Obj current) ''style'') ''color'')))"

definition gradientNewStyle :: "catalog \<Rightarrow> obj \<Rightarrow> jsval \<Rightarrow> jsval" where
  "gradientNewStyle gradients current v =
     Obj (fmupd ''color'' (Obj (gradientNewColor gradients current v))
           (spread (js_get (Obj current) ''style'')))"

definition gradientNewAttributes :: "catalog \<Rightarrow> obj \<Rightarrow> jsval \<Rightarrow> obj" where
  "gradientNewAttributes gradients current v =
     (let slug = getGradientSlugByValue gradients v;
          newStyle = gradientNewStyle gradients current v
      in if truthy slug
         then fmupd ''gradient'' slug
                (fmupd ''style'' (cleanEmptyObject newStyle) fmempty)
         else fmupd ''gradient'' Undefined
                (fmupd ''style'' (cleanEmptyObject newStyle) fmempty))"

text \<open>
  The tail shared by both handlers: \<^verbatim>\<open>props.setAttributes( newAttributes )\<close>, then
  \<^verbatim>\<open>localAttributes.current = { ...localAttributes.current, ...newAttributes }\<close>.
\<close>

definition commit :: "obj \<Rightarrow> controls \<Rightarrow> controls" where
  "commit newAttributes s =
     s\<lparr> setAttributesCalls := setAttributesCalls s @ [newAttributes],
        localAttributes := localAttributes s ++\<^sub>f newAttributes \<rparr>"

definition onChangeColor :: "catalog \<Rightarrow> string \<Rightarrow> jsval \<Rightarrow> controls \<Rightarrow> controls" where
  "onChangeColor colors name v s =
     commit (colorNewAttributes colors (localAttributes s) name v) s"

definition onChangeGradient :: "catalog \<Rightarrow> jsval \<Rightarrow> controls \<Rightarrow> controls" where
  "onChangeGradient gradients v s =
     commit (gradientNewAttributes gradients (localAttributes s) v) s"

text \<open>
  The three channels of the panel and the handler each is wired to in the settings
  array: \<^verbatim>\<open>onChangeColor( 'text' )\<close>, \<^verbatim>\<open>onChangeColor( 'background' )\<close> and
  \<^verbatim>\<open>onChangeGradient\<close>.
\<close>

datatype channel = TextChannel | BackgroundChannel | GradientChannel

fun change :: "catalog \<Rightarrow> catalog \<Rightarrow> channel \<Rightarrow> jsval \<Rightarrow> controls \<Rightarrow> controls" where
  "change colors gradients TextChannel v s = onChangeColor colors ''text'' v s"
| "change colors gradients BackgroundChannel v s = onChangeColor colors ''background'' v s"
| "change colors gradients GradientChannel v s = onChangeGradient gradients v s"

text \<open>
  Reading a channel off an attribute snapshot: the slug attribute (\<^verbatim>\<open>textColor\<close>,
  \<^verbatim>\<open>backgroundColor\<close>, \<^verbatim>\<open>gradient\<close>) and the raw override
  (\<^verbatim>\<open>style?.color?.text\<close>, \<^verbatim>\<open>style?.color?.background\<close>, \<^verbatim>\<open>style?.color?.gradient\<close>).
\<close>

fun slugKey :: "channel \<Rightarrow> string" where
  "slugKey TextChannel = ''textColor''"
| "slugKey BackgroundChannel = ''backgroundColor''"
| "slugKey GradientChannel = ''gradient''"

fun rawKey :: "channel \<Rightarrow> string" where
  "rawKey TextChannel = ''text''"
| "rawKey BackgroundChannel = ''background''"
| "rawKey GradientChannel = ''gradient''"

definition channelSlug :: "obj \<Rightarrow> channel \<Rightarrow> jsval" where
  "channelSlug a c = js_get (Obj a) (slugKey c)"

definition channelRaw :: "obj \<Rightarrow> channel \<Rightarrow> jsval" where
  "channelRaw a c = js_get (js_get (js_get (Obj a) ''style'') ''color'') (rawKey c)"

text \<open>The catalog a channel's handler searches: the palette, or the gradients.\<close>

fun catalogOf :: "catalog \<Rightarrow> catalog \<Rightarrow> channel \<Rightarrow> catalog" where
  "catalogOf colors gradients TextChannel = colors"
| "catalogOf colors gradients BackgroundChannel = colors"
| "catalogOf colors gradients GradientChannel = gradients"

text \<open>
  The slug that the reverse lookup of a channel's handler yields for a value:
  \<^verbatim>\<open>colorObject?.slug\<close> in \<^verbatim>\<open>onChangeColor\<close>, \<^verbatim>\<open>slug\<close> in \<^verbatim>\<open>onChangeGradient\<close>.
\<close>

definition foundSlug :: "catalog \<Rightarrow> jsval \<Rightarrow> jsval" where
  "foundSlug cat v =
     (case find (\<lambda>e. Str (entryValue e) = v) cat of
        None \<Rightarrow> Undefined
      | Some e \<Rightarrow> Str (entrySlug e))"

text \<open>The color object that a channel's handler builds inside \<^verbatim>\<open>newStyle\<close>.\<close>

fun newColorOf :: "catalog \<Rightarrow> catalog \<Rightarrow> channel \<Rightarrow> obj \<Rightarrow> jsval \<Rightarrow> obj" where
  "newColorOf colors gradients TextChannel current v = colorNewColor colors current ''text'' v"
| "newColorOf colors gradients BackgroundChannel current v =
     colorNewColor colors current ''background'' v"
| "newColorOf colors gradients GradientChannel current v = gradientNewColor gradients current v"

text \<open>\<^verbatim>\<open>newAttributes\<close> of a channel's handler, the argument of \<^verbatim>\<open>props.setAttributes\<close>.\<close>

fun newAttributesOf :: "catalog \<Rightarrow> catalog \<Rightarrow> channel \<Rightarrow> obj \<Rightarrow> jsval \<Rightarrow> obj" where
  "newAttributesOf colors gradients TextChannel current v =
     colorNewAttributes colors current ''text'' v"
| "newAttributesOf colors gradients BackgroundChannel current v =
     colorNewAttributes colors current ''background'' v"
| "newAttributesOf colors gradients GradientChannel current v =
     gradientNewAttributes gradients current v"

subsection \<open>Host renders and batches of changes\<close>

text \<open>
  \<^verbatim>\<open>const localAttributes = useRef( attributes )\<close> on mount, and the effect
  \<^verbatim>\<open>useEffect( () => { localAttributes.current = attributes; } )\<close>, which has no dependency
  list and so runs after every render of the component with the attributes of that
  render's props. A render and its effect are one step here.
\<close>

definition mount :: "obj \<Rightarrow> controls" where
  "mount attrs = \<lparr> propsAttributes = attrs, localAttributes = attrs, setAttributesCalls = [] \<rparr>"

definition hostRender :: "obj \<Rightarrow> controls \<Rightarrow> controls" where
  "hostRender attrs s = s\<lparr> propsAttributes := attrs, localAttributes := attrs \<rparr>"

datatype event = HostRender obj | Change channel jsval

fun step :: "catalog \<Rightarrow> catalog \<Rightarrow> controls \<Rightarrow> event \<Rightarrow> controls" where
  "step colors gradients s (HostRender attrs) = hostRender attrs s"
| "step colors gradients s (Change c v) = change colors gradients c v s"

definition run :: "catalog \<Rightarrow> catalog \<Rightarrow> event list \<Rightarrow> controls \<Rightarrow> controls" where
  "run colors gradients evs s = foldl (step colors gradients) s evs"

text \<open>
  A batch: channel-change calls issued one after the other with no render in between.
  \<open>merged\<close> is the snapshot that results from merging one change into a snapshot,
  \<^verbatim>\<open>{ ...snapshot, ...newAttributes }\<close>.
\<close>

definition batch :: "(channel \<times> jsval) list \<Rightarrow> event list" where
  "batch cs = map (\<lambda>(c, v). Change c v) cs"

definition merged :: "catalog \<Rightarrow> catalog \<Rightarrow> obj \<Rightarrow> channel \<times> jsval \<Rightarrow> obj" where
  "merged colors gradients a cv = a ++\<^sub>f newAttributesOf colors gradients (fst cv) a (snd cv)"

text \<open>
  The attribute sets that a batch passes to \<^verbatim>\<open>props.setAttributes\<close>, one per call, when
  each call computes its \<^verbatim>\<open>newAttributes\<close> from the snapshot merged so far.
\<close>

fun commits :: "catalog \<Rightarrow> catalog \<Rightarrow> obj \<Rightarrow> (channel \<times> jsval) list \<Rightarrow> obj list" where
  "commits colors gradients a [] = []"
| "commits colors gradients a (cv # cs) =
     newAttributesOf colors gradients (fst cv) a (snd cv)
       # commits colors gradients (merged colors gradients a cv) cs"

subsection \<open>Block supports and the gradient value shown by the panel\<close>

text \<open>
  Modelled from the spec: \<^verbatim>\<open>hasBlockSupport\<close> and \<^verbatim>\<open>getBlockSupport\<close> of
  \<^verbatim>\<open>@wordpress/blocks\<close> are the host's capability queries (spec 6): the configuration a
  block type declares for a capability, or \<^verbatim>\<open>undefined\<close>, and whether it declares the
  capability at all. A block type carries its \<^verbatim>\<open>supports\<close> and its attribute schema.
\<close>

record blockType =
  supports :: jsval
  attributes :: "obj option"

definition getBlockSupport :: "blockType \<Rightarrow> string \<Rightarrow> jsval" where
  "getBlockSupport bt feature = js_get (supports bt) feature"

definition hasBlockSupport :: "blockType \<Rightarrow> string \<Rightarrow> bool" where
  "hasBlockSupport bt feature = truthy (getBlockSupport bt feature)"

definition COLOR_SUPPORT_KEY :: string where
  "COLOR_SUPPORT_KEY = ''__experimentalColor''"

definition hasColorSupport :: "blockType \<Rightarrow> bool" where
  "hasColorSupport bt = hasBlockSupport bt COLOR_SUPPORT_KEY"

text \<open>\<^verbatim>\<open>isObject( colorSupport ) && !! colorSupport.gradients\<close>.\<close>

definition hasGradientSupport :: "blockType \<Rightarrow> bool" where
  "hasGradientSupport bt =
     (let colorSupport = getBlockSupport bt COLOR_SUPPORT_KEY
      in case colorSupport of
           Obj m \<Rightarrow> truthy (js_get colorSupport ''gradients'')
         | _ \<Rightarrow> False)"

text \<open>
  \<^verbatim>\<open>gradientValue\<close> in \<^verbatim>\<open>withBlockControls\<close>, read from the props' attributes; the
  variable is declared without a value and stays \<^verbatim>\<open>undefined\<close> without gradient support.
\<close>

definition gradientValue :: "blockType \<Rightarrow> catalog \<Rightarrow> obj \<Rightarrow> jsval" where
  "gradientValue bt gradients attrs =
     (let hasGradient = hasGradientSupport bt;
          style = js_get (Obj attrs) ''style'';
          gradient = js_get (Obj attrs) ''gradient''
      in if hasGradient \<and> truthy gradient then getGradientValueBySlug gradients gradient
         else if hasGradient then js_get (js_get style ''color'') ''gradient''
         else Undefined)"

section \<open>Block registration and save-time props\<close>

datatype error = TypeError

text \<open>
  \<^verbatim>\<open>addAttributes\<close>. \<^verbatim>\<open>Object.assign\<close> writes into \<^verbatim>\<open>settings.attributes\<close>, and
  reading a property of an absent \<^verbatim>\<open>settings.attributes\<close> throws.
\<close>

definition stringType :: jsval where
  "stringType = Obj (fmupd ''type'' (Str ''string'') fmempty)"

definition addAttributes :: "blockType \<Rightarrow> error + blockType" where
  "addAttributes settings =
     (if \<not> hasColorSupport settings then Inr settings
      else case attributes settings of
        None \<Rightarrow> Inl TypeError
      | Some a0 \<Rightarrow>
          (let a1 = (if \<not> truthy (js_get (Obj a0) ''backgroundColor'')
                     then fmupd ''backgroundColor'' stringType a0 else a0);
               a2 = (if \<not> truthy (js_get (Obj a1) ''textColor'')
                     then fmupd ''textColor'' stringType a1 else a1);
               a3 = (if hasGradientSupport settings \<and> \<not> truthy (js_get (Obj a2) ''gradient'')
                     then fmupd ''gradient'' stringType a2 else a2)
           in Inr (settings\<lparr> attributes := Some a3 \<rparr>)))"

text \<open>
  The \<^verbatim>\<open>classnames\<close> package: every truthy string argument is a class, and an object
  argument gives its keys whose values are truthy, in the order of the object's keys;
  the classes are joined by single spaces. An object argument is given here by its keys
  and the truthiness of their values.
\<close>

datatype classArg = ClassValue "string option" | ClassObject "(string \<times> bool) list"

fun classesOf :: "classArg \<Rightarrow> string list" where
  "classesOf (ClassValue None) = []"
| "classesOf (ClassValue (Some c)) = (if c = [] then [] else [c])"
| "classesOf (ClassObject kvs) = map fst (filter snd kvs)"

fun joinSpace :: "string list \<Rightarrow> string" where
  "joinSpace [] = []"
| "joinSpace [c] = c"
| "joinSpace (c # d # cs) = c @ '' '' @ joinSpace (d # cs)"

definition classnames :: "classArg list \<Rightarrow> string" where
  "classnames args = joinSpace (concat (map classesOf args))"

text \<open>
  An object literal with computed keys: a key written twice keeps its first position and
  takes its last value. A computed key that is \<^verbatim>\<open>undefined\<close> names the property
  \<^verbatim>\<open>undefined\<close>.
\<close>

definition objectLiteral :: "(string \<times> bool) list \<Rightarrow> (string \<times> bool) list" where
  "objectLiteral kvs = foldl (\<lambda>acc kv. AList.update (fst kv) (snd kv) acc) [] kvs"

definition propertyKey :: "string option \<Rightarrow> string" where
  "propertyKey k = (case k of None \<Rightarrow> ''undefined'' | Some c \<Rightarrow> c)"

definition truthyClass :: "string option \<Rightarrow> bool" where
  "truthyClass k = (case k of None \<Rightarrow> False | Some c \<Rightarrow> c \<noteq> [])"

record props =
  className :: "string option"

text \<open>
  \<^verbatim>\<open>addSaveProps\<close>. The helpers \<^verbatim>\<open>getColorClassName\<close> and
  \<^verbatim>\<open>__experimentalGetGradientClass\<close> are not part of the sources and are parameters:
  each gives a class name or \<^verbatim>\<open>undefined\<close>. \<open>saveClassArgs\<close> is the argument list of
  the call of \<^verbatim>\<open>classnames\<close>.
\<close>

definition saveClassArgs ::
  "(string \<Rightarrow> jsval \<Rightarrow> string option) \<Rightarrow> (jsval \<Rightarrow> string option) \<Rightarrow>
   'a props_scheme \<Rightarrow> blockType \<Rightarrow> obj \<Rightarrow> classArg list" where
  "saveClassArgs getColorClassName getGradientClass ps bt attrs =
     (let hasGradient = hasGradientSupport bt;
          backgroundColor = js_get (Obj attrs) ''backgroundColor'';
          textColor = js_get (Obj attrs) ''textColor'';
          gradient = js_get (Obj attrs) ''gradient'';
          style = js_get (Obj attrs) ''style'';
          backgroundClass = getColorClassName ''background-color'' backgroundColor;
          gradientClass = getGradientClass gradient;
          textClass = getColorClassName ''color'' textColor
      in [ClassValue (className ps), ClassValue textClass, ClassValue gradientClass,
          ClassObject (objectLiteral
            [(propertyKey backgroundClass,
                (\<not> hasGradient \<or> \<not> truthy (js_get (js_get style ''color'') ''gradient''))
                \<and> truthyClass backgroundClass),
             (''has-text-color'',
                truthy textColor \<or> truthy (js_get (js_get style ''color'') ''text'')),
             (''has-background'',
                truthy backgroundColor
                \<or> truthy (js_get (js_get style ''color'') ''background'')
                \<or> (hasGradient
                    \<and> (truthy gradient
                        \<or> truthy (js_get (js_get style ''color'') ''gradient''))))])])"

definition addSaveProps ::
  "(string \<Rightarrow> jsval \<Rightarrow> string option) \<Rightarrow> (jsval \<Rightarrow> string option) \<Rightarrow>
   'a props_scheme \<Rightarrow> blockType \<Rightarrow> obj \<Rightarrow> 'a props_scheme" where
  "addSaveProps getColorClassName getGradientClass ps bt attrs =
     (if \<not> hasColorSupport bt then ps
      else
        (let newClassName =
               classnames (saveClassArgs getColorClassName getGradientClass ps bt attrs)
         in ps\<lparr> className := (if newClassName \<noteq> [] then Some newClassName else None) \<rparr>))"

text \<open>
  The classes of a block whose background is a custom gradient: the classes it already
  had, the text color class, the gradient class, \<^verbatim>\<open>has-text-color\<close> when a text color is
  set by slug or by raw value, and \<^verbatim>\<open>has-background\<close>.
\<close>

definition customGradientClasses ::
  "(string \<Rightarrow> jsval \<Rightarrow> string option) \<Rightarrow> (jsval \<Rightarrow> string option) \<Rightarrow>
   'a props_scheme \<Rightarrow> obj \<Rightarrow> string set" where
  "customGradientClasses getColorClassName getGradientClass ps attrs =
     set (concat (map classesOf
       [ClassValue (className ps),
        ClassValue (getColorClassName ''color'' (js_get (Obj attrs) ''textColor'')),
        ClassValue (getGradientClass (js_get (Obj attrs) ''gradient''))]))
     \<union> (if truthy (js_get (Obj attrs) ''textColor'')
            \<or> truthy (js_get (js_get (js_get (Obj attrs) ''style'') ''color'') ''text'')
         then {''has-text-color''} else {})
     \<union> {''has-background''}"

section \<open>The contrast sampler of \<^verbatim>\<open>ColorPanel\<close>\<close>

text \<open>
  A DOM node as the effect of \<^verbatim>\<open>ColorPanel\<close> sees it: the \<^verbatim>\<open>color\<close> and
  \<^verbatim>\<open>backgroundColor\<close> of its computed style, its \<^verbatim>\<open>nodeType\<close> and its \<^verbatim>\<open>parentNode\<close>
  (absent at the top of the document).
\<close>

datatype node =
  Node (computedColor: string) (computedBackgroundColor: string) (nodeType: nat)
       (parentNode: "node option")

definition ELEMENT_NODE :: nat where
  "ELEMENT_NODE = 1"

text \<open>
  The \<^verbatim>\<open>while\<close> loop, entered with \<^verbatim>\<open>backgroundColorNode\<close> and the
  \<^verbatim>\<open>backgroundColor\<close> read from it; the result is \<^verbatim>\<open>backgroundColor\<close> on exit.
\<close>

fun walkBackground :: "node \<Rightarrow> string \<Rightarrow> string" where
  "walkBackground (Node c b t None) backgroundColor = backgroundColor"
| "walkBackground (Node c b t (Some p)) backgroundColor =
     (if backgroundColor = ''rgba(0, 0, 0, 0)'' \<and> nodeType p = ELEMENT_NODE
      then walkBackground p (computedBackgroundColor p)
      else backgroundColor)"

text \<open>
  The two state cells \<^verbatim>\<open>detectedBackgroundColor\<close> and \<^verbatim>\<open>detectedColor\<close>, both
  \<^verbatim>\<open>undefined\<close> after \<^verbatim>\<open>useState()\<close>, and the effect that samples the node returned by
  \<^verbatim>\<open>getBlockDOMNode( clientId )\<close>.
\<close>

record contrast =
  detectedBackgroundColor :: "string option"
  detectedColor :: "string option"

definition initialContrast :: contrast where
  "initialContrast = \<lparr> detectedBackgroundColor = None, detectedColor = None \<rparr>"

definition detectColors :: "node option \<Rightarrow> contrast \<Rightarrow> contrast" where
  "detectColors colorsDetectionElement st =
     (case colorsDetectionElement of
        None \<Rightarrow> st
      | Some el \<Rightarrow>
          st\<lparr> detectedColor := Some (computedColor el),
              detectedBackgroundColor :=
                Some (walkBackground el (computedBackgroundColor el)) \<rparr>)"

text \<open>
  The node itself followed by its element ancestors, nearest first, up to the first
  parent that is absent or not an element.
\<close>

fun elementChain :: "node \<Rightarrow> node list" where
  "elementChain (Node c b t None) = [Node c b t None]"
| "elementChain (Node c b t (Some p)) =
     Node c b t (Some p) # (if nodeType p = ELEMENT_NODE then elementChain p else [])"

text \<open>
  The spec's words, for comparison with the test of the loop: a computed color denotes
  full transparency when its alpha channel is zero. A computed color is serialised as
  \<^verbatim>\<open>rgb(r, g, b)\<close>, or as \<^verbatim>\<open>rgba(r, g, b, a)\<close> when its alpha is not one, so these are the
  values \<^verbatim>\<open>rgba(r, g, b, 0)\<close>. The loop itself compares with the one value
  \<^verbatim>\<open>rgba(0, 0, 0, 0)\<close>.
\<close>

definition denotesFullTransparency :: "string \<Rightarrow> bool" where
  "denotesFullTransparency color =
     (take 5 color = ''rgba('' \<and> drop (length color - 4) color = '', 0)'')"

section \<open>Properties\<close>

lemma js_get_cleanEmptyObject: "js_get (cleanEmptyObject x) k = cleanEmptyObject (js_get x k)"
proof (cases x)
  case (Obj m)
  show ?thesis
  proof (cases "fmlookup m k")
    case None
    with Obj show ?thesis by (simp add: Let_def)
  next
    case (Some y)
    with Obj show ?thesis
      by (auto simp: Let_def fmap_ext dest!: arg_cong[where f = "\<lambda>m. fmlookup m k"]
               split: if_splits option.splits)
  qed
qed simp_all

subsection \<open>What a change writes into the snapshot\<close>

lemma attributeName_neq_style: "name @ ''Color'' \<noteq> ''style''"
proof
  assume "name @ ''Color'' = ''style''"
  then have "last (name @ ''Color'') = last ''style''" by (rule arg_cong)
  then show False by simp
qed

lemma style_after_color:
  "js_get (Obj (cur ++\<^sub>f colorNewAttributes colors cur name v)) ''style'' =
     cleanEmptyObject (colorNewStyle colors cur name v)"
  using attributeName_neq_style[of name]
  by (simp add: colorNewAttributes_def Let_def del: cleanEmptyObject.simps)

lemma raw_after_color:
  "js_get (js_get (js_get (Obj (cur ++\<^sub>f colorNewAttributes colors cur name v)) ''style'')
      ''color'') name =
     cleanEmptyObject
       (if truthy (slugOf (getColorObjectByColorValue colors v)) then Undefined else v)"
  unfolding style_after_color js_get_cleanEmptyObject
  by (simp add: colorNewStyle_def colorNewColor_def)

lemma slug_after_color:
  "js_get (Obj (cur ++\<^sub>f colorNewAttributes colors cur name v)) (name @ ''Color'') =
     (if truthy (slugOf (getColorObjectByColorValue colors v))
      then slugOf (getColorObjectByColorValue colors v) else Undefined)"
  by (simp add: colorNewAttributes_def Let_def del: cleanEmptyObject.simps)

lemma style_after_gradient:
  "js_get (Obj (cur ++\<^sub>f gradientNewAttributes gradients cur v)) ''style'' =
     cleanEmptyObject (gradientNewStyle gradients cur v)"
  by (simp add: gradientNewAttributes_def Let_def del: cleanEmptyObject.simps)

lemma raw_after_gradient:
  "js_get (js_get (js_get (Obj (cur ++\<^sub>f gradientNewAttributes gradients cur v)) ''style'')
      ''color'') ''gradient'' =
     cleanEmptyObject (if truthy (getGradientSlugByValue gradients v) then Undefined else v)"
  unfolding style_after_gradient js_get_cleanEmptyObject
  by (simp add: gradientNewStyle_def gradientNewColor_def)

lemma slug_after_gradient:
  "js_get (Obj (cur ++\<^sub>f gradientNewAttributes gradients cur v)) ''gradient'' =
     (if truthy (getGradientSlugByValue gradients v)
      then getGradientSlugByValue gradients v else Undefined)"
  by (simp add: gradientNewAttributes_def Let_def del: cleanEmptyObject.simps)

lemma slugOf_found: "slugOf (getColorObjectByColorValue colors v) = foundSlug colors v"
  by (simp add: slugOf_def getColorObjectByColorValue_def foundSlug_def)

lemma gradientSlug_found: "getGradientSlugByValue gradients v = foundSlug gradients v"
  by (simp add: getGradientSlugByValue_def foundSlug_def)

lemma foundSlug_Some:
  "find (\<lambda>e. Str (entryValue e) = v) cat = Some e \<Longrightarrow> foundSlug cat v = Str (entrySlug e)"
  by (simp add: foundSlug_def)

lemma foundSlug_None:
  assumes "\<forall>e\<in>set cat. Str (entryValue e) \<noteq> v"
  shows "foundSlug cat v = Undefined"
proof -
  from assms have "find (\<lambda>e. Str (entryValue e) = v) cat = None"
    by (simp add: find_None_iff)
  then show ?thesis by (simp add: foundSlug_def)
qed

lemma channelSlug_change:
  "channelSlug (localAttributes (change colors gradients c v s)) c =
     (if truthy (foundSlug (catalogOf colors gradients c) v)
      then foundSlug (catalogOf colors gradients c) v else Undefined)"
proof (cases c)
  case TextChannel
  then show ?thesis
    using slug_after_color[of "localAttributes s" colors "''text''" v]
    by (simp add: channelSlug_def onChangeColor_def commit_def slugOf_found)
next
  case BackgroundChannel
  then show ?thesis
    using slug_after_color[of "localAttributes s" colors "''background''" v]
    by (simp add: channelSlug_def onChangeColor_def commit_def slugOf_found)
next
  case GradientChannel
  then show ?thesis
    using slug_after_gradient[of "localAttributes s" gradients v]
    by (simp add: channelSlug_def onChangeGradient_def commit_def gradientSlug_found)
qed

lemma channelRaw_change:
  "channelRaw (localAttributes (change colors gradients c v s)) c =
     cleanEmptyObject
       (if truthy (foundSlug (catalogOf colors gradients c) v) then Undefined else v)"
proof (cases c)
  case TextChannel
  then show ?thesis
    using raw_after_color[of "localAttributes s" colors "''text''" v]
    by (simp add: channelRaw_def onChangeColor_def commit_def slugOf_found)
next
  case BackgroundChannel
  then show ?thesis
    using raw_after_color[of "localAttributes s" colors "''background''" v]
    by (simp add: channelRaw_def onChangeColor_def commit_def slugOf_found)
next
  case GradientChannel
  then show ?thesis
    using raw_after_gradient[of "localAttributes s" gradients v]
    by (simp add: channelRaw_def onChangeGradient_def commit_def gradientSlug_found)
qed

subsection \<open>Slug or raw override, never both\<close>

text \<open>
  C1 (as amended). After a change of any channel, from any snapshot and with any value,
  the channel's slug or its raw override is \<^verbatim>\<open>undefined\<close>. When the first catalog entry
  with the value has a non-empty slug, the slug attribute is that slug and the raw
  override is cleared. When that entry's slug is empty, the handler treats the value as
  custom: the slug attribute is cleared and the raw override is the value. When no entry
  has the value, the slug attribute is cleared and the raw override is the value (cleaned
  of empty containers).
\<close>

theorem change_priority:
  "(channelSlug (localAttributes (change colors gradients c v s)) c = Undefined
      \<or> channelRaw (localAttributes (change colors gradients c v s)) c = Undefined)
   \<and> (\<forall>e. find (\<lambda>e. Str (entryValue e) = v) (catalogOf colors gradients c) = Some e
           \<and> entrySlug e \<noteq> []
        \<longrightarrow> channelSlug (localAttributes (change colors gradients c v s)) c = Str (entrySlug e)
            \<and> channelRaw (localAttributes (change colors gradients c v s)) c = Undefined)
   \<and> (\<forall>e. find (\<lambda>e. Str (entryValue e) = v) (catalogOf colors gradients c) = Some e
           \<and> entrySlug e = []
        \<longrightarrow> channelSlug (localAttributes (change colors gradients c v s)) c = Undefined
            \<and> channelRaw (localAttributes (change colors gradients c v s)) c = v)
   \<and> ((\<forall>e\<in>set (catalogOf colors gradients c). Str (entryValue e) \<noteq> v)
        \<longrightarrow> channelSlug (localAttributes (change colors gradients c v s)) c = Undefined
            \<and> channelRaw (localAttributes (change colors gradients c v s)) c
                = cleanEmptyObject v)"
proof (intro conjI allI impI)
  show "channelSlug (localAttributes (change colors gradients c v s)) c = Undefined
      \<or> channelRaw (localAttributes (change colors gradients c v s)) c = Undefined"
    by (simp add: channelSlug_change channelRaw_change)
next
  fix e
  assume "find (\<lambda>e. Str (entryValue e) = v) (catalogOf colors gradients c) = Some e
    \<and> entrySlug e \<noteq> []"
  then have f: "foundSlug (catalogOf colors gradients c) v = Str (entrySlug e)"
    and t: "entrySlug e \<noteq> []"
    by (simp_all add: foundSlug_Some)
  show "channelSlug (localAttributes (change colors gradients c v s)) c = Str (entrySlug e)"
    by (simp add: channelSlug_change f t)
  show "channelRaw (localAttributes (change colors gradients c v s)) c = Undefined"
    by (simp add: channelRaw_change f t)
next
  fix e
  assume a: "find (\<lambda>e. Str (entryValue e) = v) (catalogOf colors gradients c) = Some e
    \<and> entrySlug e = []"
  then have f: "foundSlug (catalogOf colors gradients c) v = Str []"
    by (simp add: foundSlug_Some)
  from a have "Str (entryValue e) = v" by (auto simp: find_Some_iff)
  then have cv: "cleanEmptyObject v = v" by auto
  show "channelSlug (localAttributes (change colors gradients c v s)) c = Undefined"
    by (simp add: channelSlug_change f)
  show "channelRaw (localAttributes (change colors gradients c v s)) c = v"
    by (simp add: channelRaw_change f cv del: cleanEmptyObject.simps)
next
  assume "\<forall>e\<in>set (catalogOf colors gradients c). Str (entryValue e) \<noteq> v"
  then have f: "foundSlug (catalogOf colors gradients c) v = Undefined"
    by (rule foundSlug_None)
  show "channelSlug (localAttributes (change colors gradients c v s)) c = Undefined"
    by (simp add: channelSlug_change f)
  show "channelRaw (localAttributes (change colors gradients c v s)) c = cleanEmptyObject v"
    by (simp add: channelRaw_change f del: cleanEmptyObject.simps)
qed

text \<open>
  The theorem at three inputs: the spec's example of a text color that matches the
  catalog entry \<open>red\<close>, a background color that matches an entry without a slug, and a
  gradient that is not in the catalog.
\<close>

theorem change_priority_witness:
  "find (\<lambda>e. Str (entryValue e) = Str ''#ff0000'')
     (catalogOf [\<lparr>entrySlug = ''red'', entryValue = ''#ff0000''\<rparr>] [] TextChannel)
     = Some \<lparr>entrySlug = ''red'', entryValue = ''#ff0000''\<rparr>
   \<and> channelSlug (localAttributes
         (change [\<lparr>entrySlug = ''red'', entryValue = ''#ff0000''\<rparr>] []
           TextChannel (Str ''#ff0000'')
           (mount (fmupd ''style''
                    (Obj (fmupd ''color'' (Obj (fmupd ''text'' (Str ''#222'') fmempty)) fmempty))
                    fmempty))))
       TextChannel = Str ''red''
   \<and> channelRaw (localAttributes
         (change [\<lparr>entrySlug = ''red'', entryValue = ''#ff0000''\<rparr>] []
           TextChannel (Str ''#ff0000'')
           (mount (fmupd ''style''
                    (Obj (fmupd ''color'' (Obj (fmupd ''text'' (Str ''#222'') fmempty)) fmempty))
                    fmempty))))
       TextChannel = Undefined
   \<and> find (\<lambda>e. Str (entryValue e) = Str ''#ff0000'')
     (catalogOf [\<lparr>entrySlug = [], entryValue = ''#ff0000''\<rparr>] [] BackgroundChannel)
     = Some \<lparr>entrySlug = [], entryValue = ''#ff0000''\<rparr>
   \<and> channelSlug (localAttributes
         (change [\<lparr>entrySlug = [], entryValue = ''#ff0000''\<rparr>] []
           BackgroundChannel (Str ''#ff0000'') (mount fmempty)))
       BackgroundChannel = Undefined
   \<and> channelRaw (localAttributes
         (change [\<lparr>entrySlug = [], entryValue = ''#ff0000''\<rparr>] []
           BackgroundChannel (Str ''#ff0000'') (mount fmempty)))
       BackgroundChannel = Str ''#ff0000''
   \<and> channelSlug (localAttributes
         (change [] [\<lparr>entrySlug = ''sky'', entryValue = ''linear-gradient(red, blue)''\<rparr>]
           GradientChannel (Str ''linear-gradient(#000, #fff)'')
           (mount (fmupd ''gradient'' (Str ''sky'') fmempty))))
       GradientChannel = Undefined
   \<and> channelRaw (localAttributes
         (change [] [\<lparr>entrySlug = ''sky'', entryValue = ''linear-gradient(red, blue)''\<rparr>]
           GradientChannel (Str ''linear-gradient(#000, #fff)'')
           (mount (fmupd ''gradient'' (Str ''sky'') fmempty))))
       GradientChannel = Str ''linear-gradient(#000, #fff)''"
  using
    change_priority[of "[\<lparr>entrySlug = ''red'', entryValue = ''#ff0000''\<rparr>]" "[]" TextChannel
      "Str ''#ff0000''"
      "mount (fmupd ''style''
               (Obj (fmupd ''color'' (Obj (fmupd ''text'' (Str ''#222'') fmempty)) fmempty))
               fmempty)"]
    change_priority[of "[\<lparr>entrySlug = [], entryValue = ''#ff0000''\<rparr>]" "[]" BackgroundChannel
      "Str ''#ff0000''" "mount fmempty"]
    change_priority[of "[]" "[\<lparr>entrySlug = ''sky'', entryValue = ''linear-gradient(red, blue)''\<rparr>]"
      GradientChannel "Str ''linear-gradient(#000, #fff)''"
      "mount (fmupd ''gradient'' (Str ''sky'') fmempty)"]
  by simp

text \<open>
  C1 as stated fails where the matching catalog entry has an empty slug: the value
  \<^verbatim>\<open>#ff0000\<close> matches the only entry of the palette, yet \<^verbatim>\<open>onChangeColor( 'text' )\<close>
  leaves \<^verbatim>\<open>textColor\<close> \<^verbatim>\<open>undefined\<close> and writes the value into \<^verbatim>\<open>style.color.text\<close>,
  because it tests \<^verbatim>\<open>colorObject?.slug\<close> and not whether an entry was found.
\<close>

theorem slugless_entry_counterexample:
  "getColorObjectByColorValue [\<lparr>entrySlug = [], entryValue = ''#ff0000''\<rparr>] (Str ''#ff0000'')
     = Some \<lparr>entrySlug = [], entryValue = ''#ff0000''\<rparr>
   \<and> channelSlug (localAttributes
         (onChangeColor [\<lparr>entrySlug = [], entryValue = ''#ff0000''\<rparr>]
           ''text'' (Str ''#ff0000'') (mount fmempty)))
       TextChannel = Undefined
   \<and> channelRaw (localAttributes
         (onChangeColor [\<lparr>entrySlug = [], entryValue = ''#ff0000''\<rparr>]
           ''text'' (Str ''#ff0000'') (mount fmempty)))
       TextChannel = Str ''#ff0000''"
  using
    channelSlug_change[of "[\<lparr>entrySlug = [], entryValue = ''#ff0000''\<rparr>]" "[]" TextChannel
      "Str ''#ff0000''" "mount fmempty"]
    channelRaw_change[of "[\<lparr>entrySlug = [], entryValue = ''#ff0000''\<rparr>]" "[]" TextChannel
      "Str ''#ff0000''" "mount fmempty"]
  by (simp add: getColorObjectByColorValue_def foundSlug_def)

subsection \<open>A custom or cleared gradient\<close>

lemma foundSlug_Undefined: "foundSlug cat Undefined = Undefined"
  by (rule foundSlug_None) simp

lemma foundSlug_no_value:
  "\<forall>e\<in>set cat. entryValue e \<noteq> g \<Longrightarrow> foundSlug cat (Str g) = Undefined"
  by (rule foundSlug_None) simp

text \<open>
  C7. A gradient change whose value is \<^verbatim>\<open>undefined\<close>, or a gradient that no entry of the
  gradient catalog has as its value, clears the gradient slug: \<^verbatim>\<open>setAttributes\<close> is
  called with \<^verbatim>\<open>gradient: undefined\<close>, and the snapshot's \<^verbatim>\<open>gradient\<close> is
  \<^verbatim>\<open>undefined\<close>. The field \<^verbatim>\<open>style.color.gradient\<close> holds the given value, in the
  committed attributes and in the snapshot; for the value \<^verbatim>\<open>undefined\<close> that clears it.
\<close>

theorem onChangeGradient_custom:
  assumes "v = Undefined \<or> (\<exists>g. v = Str g \<and> (\<forall>e\<in>set gradients. entryValue e \<noteq> g))"
  shows "js_get (Obj (localAttributes (onChangeGradient gradients v s))) ''gradient'' = Undefined
    \<and> js_get (js_get (js_get (Obj (localAttributes (onChangeGradient gradients v s))) ''style'')
         ''color'') ''gradient'' = v
    \<and> fmlookup (last (setAttributesCalls (onChangeGradient gradients v s))) ''gradient''
         = Some Undefined
    \<and> js_get (js_get (js_get (Obj (last (setAttributesCalls (onChangeGradient gradients v s))))
         ''style'') ''color'') ''gradient'' = v"
proof -
  from assms have f: "foundSlug gradients v = Undefined"
    by (auto simp: foundSlug_Undefined foundSlug_no_value)
  from assms have cv: "cleanEmptyObject v = v" by auto
  have slug: "js_get (Obj (localAttributes (onChangeGradient gradients v s))) ''gradient'' = Undefined"
    using slug_after_gradient[of "localAttributes s" gradients v]
    by (simp add: onChangeGradient_def commit_def gradientSlug_found f)
  have raw: "js_get (js_get (js_get (Obj (localAttributes (onChangeGradient gradients v s))) ''style'')
         ''color'') ''gradient'' = v"
    using raw_after_gradient[of "localAttributes s" gradients v]
    by (simp add: onChangeGradient_def commit_def gradientSlug_found f cv
             del: cleanEmptyObject.simps)
  have patch: "last (setAttributesCalls (onChangeGradient gradients v s))
      = fmupd ''gradient'' Undefined
          (fmupd ''style'' (cleanEmptyObject (gradientNewStyle gradients (localAttributes s) v))
             fmempty)"
    by (simp add: onChangeGradient_def commit_def gradientNewAttributes_def Let_def
          gradientSlug_found f del: cleanEmptyObject.simps)
  have praw: "js_get (js_get (js_get (Obj (last (setAttributesCalls (onChangeGradient gradients v s))))
         ''style'') ''color'') ''gradient'' = v"
    unfolding patch
    by (simp add: js_get_cleanEmptyObject gradientNewStyle_def gradientNewColor_def
          gradientSlug_found f cv del: cleanEmptyObject.simps)
  from slug raw praw show ?thesis
    by (simp add: patch del: cleanEmptyObject.simps)
qed

text \<open>
  The theorem at the spec's example, a custom gradient applied to a snapshot with the
  background slug \<open>red\<close>, and at a gradient cleared with \<^verbatim>\<open>undefined\<close>.
\<close>

theorem onChangeGradient_custom_witness:
  "js_get (Obj (localAttributes
      (onChangeGradient [\<lparr>entrySlug = ''sky'', entryValue = ''linear-gradient(red, blue)''\<rparr>]
        (Str ''linear-gradient(#000, #fff)'')
        (mount (fmupd ''backgroundColor'' (Str ''red'') fmempty))))) ''gradient'' = Undefined
   \<and> js_get (js_get (js_get (Obj (localAttributes
      (onChangeGradient [\<lparr>entrySlug = ''sky'', entryValue = ''linear-gradient(red, blue)''\<rparr>]
        (Str ''linear-gradient(#000, #fff)'')
        (mount (fmupd ''backgroundColor'' (Str ''red'') fmempty))))) ''style'') ''color'')
        ''gradient'' = Str ''linear-gradient(#000, #fff)''
   \<and> js_get (Obj (localAttributes
      (onChangeGradient [\<lparr>entrySlug = ''sky'', entryValue = ''linear-gradient(red, blue)''\<rparr>]
        Undefined
        (mount (fmupd ''gradient'' (Str ''sky'') fmempty))))) ''gradient'' = Undefined
   \<and> js_get (js_get (js_get (Obj (localAttributes
      (onChangeGradient [\<lparr>entrySlug = ''sky'', entryValue = ''linear-gradient(red, blue)''\<rparr>]
        Undefined
        (mount (fmupd ''gradient'' (Str ''sky'') fmempty))))) ''style'') ''color'')
        ''gradient'' = Undefined"
  using
    onChangeGradient_custom[of "Str ''linear-gradient(#000, #fff)''"
      "[\<lparr>entrySlug = ''sky'', entryValue = ''linear-gradient(red, blue)''\<rparr>]"
      "mount (fmupd ''backgroundColor'' (Str ''red'') fmempty)"]
    onChangeGradient_custom[of Undefined
      "[\<lparr>entrySlug = ''sky'', entryValue = ''linear-gradient(red, blue)''\<rparr>]"
      "mount (fmupd ''gradient'' (Str ''sky'') fmempty)"]
  by simp

subsection \<open>No empty containers in the style\<close>

lemma cleanEmptyObject_Obj_Undefined:
  assumes "fmpred (\<lambda>k x. cleanEmptyObject x = Undefined) m"
  shows "cleanEmptyObject (Obj m) = Undefined"
proof -
  have "fmfilter (\<lambda>k. fmlookup (fmmap cleanEmptyObject m) k \<noteq> Some Undefined)
          (fmmap cleanEmptyObject m) = fmempty"
  proof (rule fmap_ext)
    fix k
    show "fmlookup (fmfilter (\<lambda>k. fmlookup (fmmap cleanEmptyObject m) k \<noteq> Some Undefined)
          (fmmap cleanEmptyObject m)) k = fmlookup fmempty k"
      using assms by (cases "fmlookup m k") (auto simp: fmpred_iff)
  qed
  then show ?thesis by (simp add: Let_def)
qed

lemma cleanEmptyObject_not_empty: "cleanEmptyObject x \<noteq> Obj fmempty"
  by (cases x) (simp_all add: Let_def)

lemma style_after_change:
  "js_get (Obj (localAttributes (change colors gradients c v s))) ''style'' =
     cleanEmptyObject
       (Obj (fmupd ''color'' (Obj (newColorOf colors gradients c (localAttributes s) v))
              (spread (js_get (Obj (localAttributes s)) ''style''))))"
proof (cases c)
  case TextChannel
  then show ?thesis
    using style_after_color[of "localAttributes s" colors "''text''" v]
    by (simp add: onChangeColor_def commit_def colorNewStyle_def del: cleanEmptyObject.simps)
next
  case BackgroundChannel
  then show ?thesis
    using style_after_color[of "localAttributes s" colors "''background''" v]
    by (simp add: onChangeColor_def commit_def colorNewStyle_def del: cleanEmptyObject.simps)
next
  case GradientChannel
  then show ?thesis
    using style_after_gradient[of "localAttributes s" gradients v]
    by (simp add: onChangeGradient_def commit_def gradientNewStyle_def del: cleanEmptyObject.simps)
qed

text \<open>
  C5 (as amended). When a channel change leaves no property of \<^verbatim>\<open>style.color\<close> with a
  value, the snapshot has no \<^verbatim>\<open>style.color\<close> at all; \<^verbatim>\<open>style\<close> itself is absent
  when it held nothing but \<^verbatim>\<open>color\<close>, and it is never an empty object.
\<close>

theorem emptied_color_collapses:
  assumes "fmpred (\<lambda>k x. x = Undefined) (newColorOf colors gradients c (localAttributes s) v)"
  shows "js_get (js_get (Obj (localAttributes (change colors gradients c v s))) ''style'') ''color''
           = Undefined
    \<and> (fmpred (\<lambda>k x. k = ''color'' \<or> x = Undefined)
          (spread (js_get (Obj (localAttributes s)) ''style''))
        \<longrightarrow> js_get (Obj (localAttributes (change colors gradients c v s))) ''style'' = Undefined)
    \<and> js_get (Obj (localAttributes (change colors gradients c v s))) ''style'' \<noteq> Obj fmempty"
proof (intro conjI impI)
  let ?nc = "newColorOf colors gradients c (localAttributes s) v"
  let ?rest = "spread (js_get (Obj (localAttributes s)) ''style'')"
  from assms have "fmpred (\<lambda>k x. cleanEmptyObject x = Undefined) ?nc"
    unfolding fmpred_iff by (metis cleanEmptyObject.simps(1))
  then have nc: "cleanEmptyObject (Obj ?nc) = Undefined"
    by (rule cleanEmptyObject_Obj_Undefined)
  show "js_get (js_get (Obj (localAttributes (change colors gradients c v s))) ''style'') ''color''
           = Undefined"
    unfolding style_after_change js_get_cleanEmptyObject
    using nc by (simp del: cleanEmptyObject.simps)
  show "js_get (Obj (localAttributes (change colors gradients c v s))) ''style'' \<noteq> Obj fmempty"
    unfolding style_after_change by (rule cleanEmptyObject_not_empty)
  assume "fmpred (\<lambda>k x. k = ''color'' \<or> x = Undefined) ?rest"
  then have "fmpred (\<lambda>k x. k = ''color'' \<or> cleanEmptyObject x = Undefined) ?rest"
    unfolding fmpred_iff by (metis cleanEmptyObject.simps(1))
  with nc have "fmpred (\<lambda>k x. cleanEmptyObject x = Undefined) (fmupd ''color'' (Obj ?nc) ?rest)"
    unfolding fmpred_iff by (metis fmupd_lookup option.inject)
  then show "js_get (Obj (localAttributes (change colors gradients c v s))) ''style'' = Undefined"
    unfolding style_after_change by (rule cleanEmptyObject_Obj_Undefined)
qed

text \<open>
  The theorem at the spec's example: the only raw override, \<^verbatim>\<open>style.color.text\<close>, is
  replaced by the slug \<open>red\<close>, and the whole \<^verbatim>\<open>style\<close> goes.
\<close>

theorem emptied_color_collapses_witness:
  "fmpred (\<lambda>k x. x = Undefined)
     (newColorOf [\<lparr>entrySlug = ''red'', entryValue = ''#ff0000''\<rparr>] [] TextChannel
        (localAttributes (mount (fmupd ''style''
           (Obj (fmupd ''color'' (Obj (fmupd ''text'' (Str ''#222'') fmempty)) fmempty))
           fmempty)))
        (Str ''#ff0000''))
   \<and> fmpred (\<lambda>k x. k = ''color'' \<or> x = Undefined)
     (spread (js_get (Obj (localAttributes (mount (fmupd ''style''
           (Obj (fmupd ''color'' (Obj (fmupd ''text'' (Str ''#222'') fmempty)) fmempty))
           fmempty)))) ''style''))
   \<and> js_get (Obj (localAttributes
        (change [\<lparr>entrySlug = ''red'', entryValue = ''#ff0000''\<rparr>] [] TextChannel
          (Str ''#ff0000'')
          (mount (fmupd ''style''
             (Obj (fmupd ''color'' (Obj (fmupd ''text'' (Str ''#222'') fmempty)) fmempty))
             fmempty))))) ''style'' = Undefined"
proof -
  let ?s = "mount (fmupd ''style''
             (Obj (fmupd ''color'' (Obj (fmupd ''text'' (Str ''#222'') fmempty)) fmempty))
             fmempty)"
  let ?colors = "[\<lparr>entrySlug = ''red'', entryValue = ''#ff0000''\<rparr>]"
  have emptied: "fmpred (\<lambda>k x. x = Undefined)
      (newColorOf ?colors [] TextChannel (localAttributes ?s) (Str ''#ff0000''))"
    by (simp add: fmpred_iff mount_def colorNewColor_def slugOf_def
          getColorObjectByColorValue_def)
  have rest: "fmpred (\<lambda>k x. k = ''color'' \<or> x = Undefined)
      (spread (js_get (Obj (localAttributes ?s)) ''style''))"
    by (simp add: fmpred_iff mount_def)
  from emptied_color_collapses[OF emptied] rest
  have "js_get (Obj (localAttributes (change ?colors [] TextChannel (Str ''#ff0000'') ?s)))
          ''style'' = Undefined"
    by blast
  with emptied rest show ?thesis by blast
qed

text \<open>
  C5 as stated fails when \<^verbatim>\<open>style\<close> holds another property: the handler spreads
  \<^verbatim>\<open>localAttributes.current.style\<close> into \<^verbatim>\<open>newStyle\<close>, so the text change that empties
  \<^verbatim>\<open>style.color\<close> keeps \<^verbatim>\<open>style.typography\<close>, and \<^verbatim>\<open>style\<close> is not absent.
\<close>

theorem other_style_property_counterexample:
  "fmpred (\<lambda>k x. x = Undefined)
     (colorNewColor [\<lparr>entrySlug = ''red'', entryValue = ''#ff0000''\<rparr>]
        (fmupd ''style''
           (Obj (fmupd ''typography'' (Obj (fmupd ''lineHeight'' (Str ''1.5'') fmempty))
                  (fmupd ''color'' (Obj (fmupd ''text'' (Str ''#222'') fmempty)) fmempty)))
           fmempty)
        ''text'' (Str ''#ff0000''))
   \<and> js_get (Obj (localAttributes
        (onChangeColor [\<lparr>entrySlug = ''red'', entryValue = ''#ff0000''\<rparr>] ''text''
          (Str ''#ff0000'')
          (mount (fmupd ''style''
             (Obj (fmupd ''typography'' (Obj (fmupd ''lineHeight'' (Str ''1.5'') fmempty))
                    (fmupd ''color'' (Obj (fmupd ''text'' (Str ''#222'') fmempty)) fmempty)))
             fmempty))))) ''style''
       = Obj (fmupd ''typography'' (Obj (fmupd ''lineHeight'' (Str ''1.5'') fmempty)) fmempty)"
  by (simp add: fmpred_iff mount_def colorNewColor_def slugOf_def
        getColorObjectByColorValue_def onChangeColor_def commit_def colorNewAttributes_def
        colorNewStyle_def Let_def fmmap_fmupd)

subsection \<open>Spreading and cleaning\<close>

lemma decimal_digits: "set (decimal n) \<subseteq> set ''0123456789''"
proof (induction n rule: decimal.induct)
  case (1 n)
  show ?case
  proof (cases "n < 10")
    case True
    then have "''0123456789'' ! n \<in> set ''0123456789''" by (intro nth_mem) simp
    with True show ?thesis by (subst decimal.simps) simp
  next
    case False
    have "''0123456789'' ! (n mod 10) \<in> set ''0123456789''" by (intro nth_mem) simp
    with False 1 show ?thesis by (subst decimal.simps) simp
  qed
qed

lemma spread_Str_lookup:
  assumes "\<exists>ch\<in>set k. ch \<notin> set ''0123456789''"
  shows "fmlookup (spread (Str s)) k = None"
proof -
  have "k \<notin> set (map decimal [0..<length s])"
    using assms decimal_digits by fastforce
  then have "map_of (zip (map decimal [0..<length s]) (map (\<lambda>c. Str [c]) s)) k = None"
    by (subst map_of_zip_is_None) simp_all
  then show ?thesis
    by (simp only: spread.simps fmlookup_of_list)
qed

lemma spread_get:
  assumes "\<exists>ch\<in>set k. ch \<notin> set ''0123456789''"
  shows "(case fmlookup (spread x) k of Some y \<Rightarrow> y | None \<Rightarrow> Undefined) = js_get x k"
proof (cases x)
  case (Str s)
  then show ?thesis by (simp only: spread_Str_lookup[OF assms] js_get.simps option.case)
qed simp_all

lemma rawKey_letters: "\<exists>ch\<in>set (rawKey c). ch \<notin> set ''0123456789''"
  by (cases c) simp_all

lemma cleanEmptyObject_idem: "cleanEmptyObject (cleanEmptyObject x) = cleanEmptyObject x"
proof (induction x)
  case (Obj m)
  define kept where
    "kept = fmfilter (\<lambda>k. fmlookup (fmmap cleanEmptyObject m) k \<noteq> Some Undefined)
              (fmmap cleanEmptyObject m)"
  have vals: "cleanEmptyObject y = y \<and> y \<noteq> Undefined" if "fmlookup kept k = Some y" for k y
  proof -
    from that have ne: "y \<noteq> Undefined" and "fmlookup (fmmap cleanEmptyObject m) k = Some y"
      unfolding kept_def by (auto split: if_splits)
    then obtain z where z: "fmlookup m k = Some z" and y: "y = cleanEmptyObject z"
      by auto
    from z have "z \<in> fmran' m" by (rule fmran'I)
    with Obj y have "cleanEmptyObject y = y" by simp
    with ne show ?thesis by simp
  qed
  have 1: "fmmap cleanEmptyObject kept = kept"
  proof (rule fmap_ext)
    fix k
    show "fmlookup (fmmap cleanEmptyObject kept) k = fmlookup kept k"
    proof (cases "fmlookup kept k")
      case None
      then show ?thesis by simp
    next
      case (Some y)
      with vals[OF Some] show ?thesis by simp
    qed
  qed
  have 2: "fmfilter (\<lambda>k. fmlookup kept k \<noteq> Some Undefined) kept = kept"
  proof (rule fmap_ext)
    fix k
    show "fmlookup (fmfilter (\<lambda>k. fmlookup kept k \<noteq> Some Undefined) kept) k = fmlookup kept k"
    proof (cases "fmlookup kept k")
      case None
      then show ?thesis by simp
    next
      case (Some y)
      with vals[OF Some] show ?thesis by simp
    qed
  qed
  have first: "cleanEmptyObject (Obj m) = (if kept = fmempty then Undefined else Obj kept)"
    by (simp add: Let_def kept_def)
  have second: "cleanEmptyObject (Obj kept) = (if kept = fmempty then Undefined else Obj kept)"
    by (simp only: cleanEmptyObject.simps Let_def 1 2)
  show ?case
  proof (cases "kept = fmempty")
    case True
    with first have "cleanEmptyObject (Obj m) = Undefined" by (simp del: cleanEmptyObject.simps)
    then show ?thesis by (simp only: cleanEmptyObject.simps(1))
  next
    case False
    with first have a: "cleanEmptyObject (Obj m) = Obj kept" by (simp del: cleanEmptyObject.simps)
    from second False have b: "cleanEmptyObject (Obj kept) = Obj kept" by (simp del: cleanEmptyObject.simps)
    show ?thesis by (simp only: a b)
  qed
qed simp_all

subsection \<open>Batches of changes\<close>

lemma localAttributes_change:
  "localAttributes (change colors gradients c v s) = merged colors gradients (localAttributes s) (c, v)"
  by (cases c) (simp_all add: merged_def onChangeColor_def onChangeGradient_def commit_def)

lemma setAttributesCalls_change:
  "setAttributesCalls (change colors gradients c v s) =
     setAttributesCalls s @ [newAttributesOf colors gradients c (localAttributes s) v]"
  by (cases c) (simp_all add: onChangeColor_def onChangeGradient_def commit_def)

lemma run_append: "run colors gradients (xs @ ys) s = run colors gradients ys (run colors gradients xs s)"
  by (simp add: run_def)

lemma run_batch_Cons:
  "run colors gradients (batch ((c, v) # cs)) s =
     run colors gradients (batch cs) (change colors gradients c v s)"
  by (simp add: run_def batch_def)

lemma localAttributes_batch:
  "localAttributes (run colors gradients (batch cs) s) =
     foldl (merged colors gradients) (localAttributes s) cs"
proof (induction cs arbitrary: s)
  case Nil
  show ?case by (simp add: run_def batch_def)
next
  case (Cons cv cs)
  obtain c v where cv: "cv = (c, v)" by (cases cv)
  show ?case
    unfolding cv run_batch_Cons Cons.IH
    by (simp add: localAttributes_change)
qed

lemma setAttributesCalls_batch:
  "setAttributesCalls (run colors gradients (batch cs) s) =
     setAttributesCalls s @ commits colors gradients (localAttributes s) cs"
proof (induction cs arbitrary: s)
  case Nil
  show ?case by (simp add: run_def batch_def)
next
  case (Cons cv cs)
  obtain c v where cv: "cv = (c, v)" by (cases cv)
  show ?case
    unfolding cv run_batch_Cons Cons.IH
    by (simp add: localAttributes_change setAttributesCalls_change)
qed

lemma commits_nth:
  "k < length cs \<Longrightarrow>
     commits colors gradients a cs ! k =
       newAttributesOf colors gradients (fst (cs ! k))
         (foldl (merged colors gradients) a (take k cs)) (snd (cs ! k))"
proof (induction cs arbitrary: a k)
  case Nil
  then show ?case by simp
next
  case (Cons cv cs)
  show ?case
  proof (cases k)
    case 0
    then show ?thesis by simp
  next
    case (Suc j)
    with Cons.prems have "j < length cs" by simp
    from Cons.IH[OF this] Suc show ?thesis by simp
  qed
qed

lemma length_commits: "length (commits colors gradients a cs) = length cs"
  by (induction cs arbitrary: a) simp_all

lemma replay_commits:
  "foldl (++\<^sub>f) a (commits colors gradients a cs) = foldl (merged colors gradients) a cs"
proof (induction cs arbitrary: a)
  case Nil
  show ?case by simp
next
  case (Cons cv cs)
  have "a ++\<^sub>f newAttributesOf colors gradients (fst cv) a (snd cv) = merged colors gradients a cv"
    by (simp add: merged_def)
  with Cons.IH[of "merged colors gradients a cv"] show ?case by simp
qed

lemma channelSlug_other:
  assumes "c' \<noteq> c"
  shows "channelSlug (merged colors gradients a (c', v)) c = channelSlug a c"
  using assms attributeName_neq_style
  by (cases c; cases c')
     (simp_all add: channelSlug_def merged_def colorNewAttributes_def gradientNewAttributes_def
        Let_def del: cleanEmptyObject.simps)

lemma style_merged:
  "js_get (Obj (merged colors gradients a (c, v))) ''style'' =
     cleanEmptyObject
       (Obj (fmupd ''color'' (Obj (newColorOf colors gradients c a v))
              (spread (js_get (Obj a) ''style''))))"
  using style_after_color[of a colors _ v] style_after_gradient[of a gradients v]
  by (cases c) (simp_all add: merged_def colorNewStyle_def gradientNewStyle_def
       del: cleanEmptyObject.simps)

lemma newColorOf_other:
  assumes "c' \<noteq> c"
  shows "js_get (Obj (newColorOf colors gradients c' a v)) (rawKey c) = channelRaw a c"
proof -
  have "(case fmlookup (spread (js_get (js_get (Obj a) ''style'') ''color'')) (rawKey c) of
          Some y \<Rightarrow> y | None \<Rightarrow> Undefined) = channelRaw a c"
    unfolding channelRaw_def by (rule spread_get) (rule rawKey_letters)
  with assms show ?thesis
    by (cases c; cases c') (simp_all add: colorNewColor_def gradientNewColor_def)
qed

lemma channelRaw_other:
  assumes "c' \<noteq> c"
  shows "channelRaw (merged colors gradients a (c', v)) c = cleanEmptyObject (channelRaw a c)"
proof -
  have "channelRaw (merged colors gradients a (c', v)) c =
      cleanEmptyObject (js_get (Obj (newColorOf colors gradients c' a v)) (rawKey c))"
    unfolding channelRaw_def style_merged js_get_cleanEmptyObject
    by (simp add: cleanEmptyObject_idem del: cleanEmptyObject.simps)
  then show ?thesis by (simp only: newColorOf_other[OF assms])
qed

lemma channel_preserved:
  assumes "c \<notin> fst ` set post" and "cleanEmptyObject (channelRaw a c) = channelRaw a c"
  shows "channelSlug (foldl (merged colors gradients) a post) c = channelSlug a c
       \<and> channelRaw (foldl (merged colors gradients) a post) c = channelRaw a c"
  using assms
proof (induction post arbitrary: a)
  case Nil
  show ?case by simp
next
  case (Cons cv post)
  obtain c' v' where cv: "cv = (c', v')" by (cases cv)
  from Cons.prems cv have ne: "c' \<noteq> c" and rest: "c \<notin> fst ` set post" by auto
  have raw: "channelRaw (merged colors gradients a cv) c = channelRaw a c"
    unfolding cv using channelRaw_other[OF ne] Cons.prems(2) by simp
  have slug: "channelSlug (merged colors gradients a cv) c = channelSlug a c"
    unfolding cv by (rule channelSlug_other[OF ne])
  from raw Cons.prems(2)
  have "cleanEmptyObject (channelRaw (merged colors gradients a cv) c)
      = channelRaw (merged colors gradients a cv) c" by simp
  from Cons.IH[OF rest this] raw slug show ?case by simp
qed

lemma channelSlug_merged:
  "channelSlug (merged colors gradients b (c, v)) c =
     (if truthy (foundSlug (catalogOf colors gradients c) v)
      then foundSlug (catalogOf colors gradients c) v else Undefined)"
  using channelSlug_change[of colors gradients c v "mount b"]
  by (simp add: localAttributes_change mount_def)

lemma channelRaw_merged:
  "channelRaw (merged colors gradients b (c, v)) c =
     cleanEmptyObject
       (if truthy (foundSlug (catalogOf colors gradients c) v) then Undefined else v)"
  using channelRaw_change[of colors gradients c v "mount b"]
  by (simp add: localAttributes_change mount_def del: cleanEmptyObject.simps)

lemma last_change_wins:
  assumes "c \<notin> fst ` set post"
  shows "channelSlug (foldl (merged colors gradients) a (pre @ (c, v) # post)) c =
           (if truthy (foundSlug (catalogOf colors gradients c) v)
            then foundSlug (catalogOf colors gradients c) v else Undefined)
       \<and> channelRaw (foldl (merged colors gradients) a (pre @ (c, v) # post)) c =
           cleanEmptyObject
             (if truthy (foundSlug (catalogOf colors gradients c) v) then Undefined else v)"
proof -
  define b where "b = merged colors gradients (foldl (merged colors gradients) a pre) (c, v)"
  have split: "foldl (merged colors gradients) a (pre @ (c, v) # post)
      = foldl (merged colors gradients) b post"
    by (simp add: b_def)
  have slug: "channelSlug b c =
           (if truthy (foundSlug (catalogOf colors gradients c) v)
            then foundSlug (catalogOf colors gradients c) v else Undefined)"
    unfolding b_def by (rule channelSlug_merged)
  have raw: "channelRaw b c =
           cleanEmptyObject
             (if truthy (foundSlug (catalogOf colors gradients c) v) then Undefined else v)"
    unfolding b_def by (rule channelRaw_merged)
  then have "cleanEmptyObject (channelRaw b c) = channelRaw b c"
    by (simp only: cleanEmptyObject_idem)
  from channel_preserved[OF assms this, of colors gradients] slug raw
  show ?thesis unfolding split by simp
qed

text \<open>
  C2. A batch of channel changes issued after a host render, with no render in between:
  the shadow ends as the snapshot obtained by merging the changes one after the other
  into the host's snapshot; \<^verbatim>\<open>props.setAttributes\<close> is called once per change, and
  call \<open>k\<close> passes the attributes computed from the merge of the calls before it, not from
  the snapshot of the render; merging the committed attribute sets in order into the
  host's snapshot gives the shadow again; and no update is lost: the final snapshot
  holds, for every channel, the slug and the raw override written by the last change of
  that channel, whatever changes of other channels came after it.
\<close>

theorem batch_no_lost_updates:
  "localAttributes (run colors gradients (batch cs) (hostRender a s))
     = foldl (merged colors gradients) a cs
   \<and> setAttributesCalls (run colors gradients (batch cs) (hostRender a s))
     = setAttributesCalls s @ commits colors gradients a cs
   \<and> (\<forall>k. k < length cs \<longrightarrow>
         commits colors gradients a cs ! k =
           newAttributesOf colors gradients (fst (cs ! k))
             (foldl (merged colors gradients) a (take k cs)) (snd (cs ! k)))
   \<and> foldl (++\<^sub>f) a (commits colors gradients a cs)
     = localAttributes (run colors gradients (batch cs) (hostRender a s))
   \<and> (\<forall>pre c v post. cs = pre @ (c, v) # post \<and> c \<notin> fst ` set post \<longrightarrow>
         channelSlug (localAttributes (run colors gradients (batch cs) (hostRender a s))) c =
           (if truthy (foundSlug (catalogOf colors gradients c) v)
            then foundSlug (catalogOf colors gradients c) v else Undefined)
       \<and> channelRaw (localAttributes (run colors gradients (batch cs) (hostRender a s))) c =
           cleanEmptyObject
             (if truthy (foundSlug (catalogOf colors gradients c) v) then Undefined else v))"
proof -
  have shadow: "localAttributes (run colors gradients (batch cs) (hostRender a s))
     = foldl (merged colors gradients) a cs"
    by (simp add: localAttributes_batch hostRender_def)
  have calls: "setAttributesCalls (run colors gradients (batch cs) (hostRender a s))
     = setAttributesCalls s @ commits colors gradients a cs"
    by (simp add: setAttributesCalls_batch hostRender_def)
  have kth: "\<forall>k. k < length cs \<longrightarrow>
         commits colors gradients a cs ! k =
           newAttributesOf colors gradients (fst (cs ! k))
             (foldl (merged colors gradients) a (take k cs)) (snd (cs ! k))"
    by (simp add: commits_nth)
  have replay: "foldl (++\<^sub>f) a (commits colors gradients a cs)
     = localAttributes (run colors gradients (batch cs) (hostRender a s))"
    unfolding shadow by (rule replay_commits)
  have wins: "\<forall>pre c v post. cs = pre @ (c, v) # post \<and> c \<notin> fst ` set post \<longrightarrow>
         channelSlug (localAttributes (run colors gradients (batch cs) (hostRender a s))) c =
           (if truthy (foundSlug (catalogOf colors gradients c) v)
            then foundSlug (catalogOf colors gradients c) v else Undefined)
       \<and> channelRaw (localAttributes (run colors gradients (batch cs) (hostRender a s))) c =
           cleanEmptyObject
             (if truthy (foundSlug (catalogOf colors gradients c) v) then Undefined else v)"
    unfolding shadow using last_change_wins by blast
  from shadow calls kth replay wins show ?thesis by blast
qed

text \<open>
  The theorem at a text change and a background change fired in the same cycle, the case
  that the comment on \<^verbatim>\<open>localAttributes\<close> describes: the second commit is computed
  from the snapshot that already holds the text slug, and both changes are in the result.
\<close>

theorem batch_no_lost_updates_witness:
  "(1::nat) < length [(TextChannel, Str ''#ff0000''), (BackgroundChannel, Str ''#123456'')]
   \<and> commits [\<lparr>entrySlug = ''red'', entryValue = ''#ff0000''\<rparr>] [] fmempty
         [(TextChannel, Str ''#ff0000''), (BackgroundChannel, Str ''#123456'')] ! 1
       = newAttributesOf [\<lparr>entrySlug = ''red'', entryValue = ''#ff0000''\<rparr>] [] BackgroundChannel
           (fmupd ''textColor'' (Str ''red'') (fmupd ''style'' Undefined fmempty))
           (Str ''#123456'')
   \<and> [(TextChannel, Str ''#ff0000''), (BackgroundChannel, Str ''#123456'')]
       = [] @ (TextChannel, Str ''#ff0000'') # [(BackgroundChannel, Str ''#123456'')]
   \<and> TextChannel \<notin> fst ` set [(BackgroundChannel, Str ''#123456'')]
   \<and> channelSlug (localAttributes
         (run [\<lparr>entrySlug = ''red'', entryValue = ''#ff0000''\<rparr>] []
            (batch [(TextChannel, Str ''#ff0000''), (BackgroundChannel, Str ''#123456'')])
            (hostRender fmempty (mount fmempty)))) TextChannel = Str ''red''
   \<and> channelRaw (localAttributes
         (run [\<lparr>entrySlug = ''red'', entryValue = ''#ff0000''\<rparr>] []
            (batch [(TextChannel, Str ''#ff0000''), (BackgroundChannel, Str ''#123456'')])
            (hostRender fmempty (mount fmempty)))) TextChannel = Undefined"
proof -
  let ?colors = "[\<lparr>entrySlug = ''red'', entryValue = ''#ff0000''\<rparr>]"
  let ?cs = "[(TextChannel, Str ''#ff0000''), (BackgroundChannel, Str ''#123456'')]"
  note t = batch_no_lost_updates[of ?colors "[]" ?cs fmempty "mount fmempty"]
  have first: "merged ?colors [] fmempty (TextChannel, Str ''#ff0000'')
      = fmupd ''textColor'' (Str ''red'') (fmupd ''style'' Undefined fmempty)"
    by (simp add: merged_def colorNewAttributes_def colorNewStyle_def colorNewColor_def
          slugOf_def getColorObjectByColorValue_def Let_def)
  from t have "commits ?colors [] fmempty ?cs ! 1 =
      newAttributesOf ?colors [] (fst (?cs ! 1))
        (foldl (merged ?colors []) fmempty (take 1 ?cs)) (snd (?cs ! 1))"
    by simp
  then have second: "commits ?colors [] fmempty ?cs ! 1 =
      newAttributesOf ?colors [] BackgroundChannel
        (fmupd ''textColor'' (Str ''red'') (fmupd ''style'' Undefined fmempty)) (Str ''#123456'')"
    by (simp add: first)
  from t have wins: "\<forall>pre c v post. ?cs = pre @ (c, v) # post \<and> c \<notin> fst ` set post \<longrightarrow>
         channelSlug (localAttributes (run ?colors [] (batch ?cs) (hostRender fmempty (mount fmempty)))) c =
           (if truthy (foundSlug (catalogOf ?colors [] c) v)
            then foundSlug (catalogOf ?colors [] c) v else Undefined)
       \<and> channelRaw (localAttributes (run ?colors [] (batch ?cs) (hostRender fmempty (mount fmempty)))) c =
           cleanEmptyObject
             (if truthy (foundSlug (catalogOf ?colors [] c) v) then Undefined else v)"
    by (elim conjE)
  have split: "?cs = [] @ (TextChannel, Str ''#ff0000'') # [(BackgroundChannel, Str ''#123456'')]"
    and later: "TextChannel \<notin> fst ` set [(BackgroundChannel, Str ''#123456'')]"
    by simp_all
  from wins[rule_format, of "[]" TextChannel "Str ''#ff0000''"
      "[(BackgroundChannel, Str ''#123456'')]"] split later
  have "channelSlug (localAttributes (run ?colors [] (batch ?cs) (hostRender fmempty (mount fmempty))))
          TextChannel = Str ''red''
      \<and> channelRaw (localAttributes (run ?colors [] (batch ?cs) (hostRender fmempty (mount fmempty))))
          TextChannel = Undefined"
    by (simp add: foundSlug_def)
  with second split later show ?thesis by simp
qed

subsection \<open>The shadow after a host render\<close>

text \<open>
  C6. Whatever renders and change calls came before, the effect of a host render leaves the
  shadow equal to the attributes of the props that the host delivered; and after a
  render followed by a batch of changes the shadow is what the same batch gives on a
  control freshly mounted with those attributes: nothing older than the last render is
  left in it.
\<close>

theorem hostRender_resets_shadow:
  "localAttributes (run colors gradients (evs @ [HostRender a]) s) = a
   \<and> propsAttributes (run colors gradients (evs @ [HostRender a]) s) = a
   \<and> localAttributes (run colors gradients (evs @ HostRender a # batch cs) s)
       = localAttributes (run colors gradients (batch cs) (mount a))"
proof (intro conjI)
  show "localAttributes (run colors gradients (evs @ [HostRender a]) s) = a"
    by (simp add: run_def hostRender_def)
  show "propsAttributes (run colors gradients (evs @ [HostRender a]) s) = a"
    by (simp add: run_def hostRender_def)
  have "run colors gradients (evs @ HostRender a # batch cs) s
      = run colors gradients (batch cs) (hostRender a (run colors gradients evs s))"
    by (simp add: run_def)
  then show "localAttributes (run colors gradients (evs @ HostRender a # batch cs) s)
       = localAttributes (run colors gradients (batch cs) (mount a))"
    by (simp add: localAttributes_batch hostRender_def mount_def)
qed


text \<open>
  The theorem at a render that follows a local text change: the shadow is the host's
  snapshot, here one that does not hold the change.
\<close>

theorem hostRender_resets_shadow_witness:
  "localAttributes
     (run [\<lparr>entrySlug = ''red'', entryValue = ''#ff0000''\<rparr>] []
        ([Change TextChannel (Str ''#ff0000'')]
           @ [HostRender (fmupd ''textColor'' (Str ''blue'') fmempty)])
        (mount fmempty))
     = fmupd ''textColor'' (Str ''blue'') fmempty"
  using hostRender_resets_shadow[of "[\<lparr>entrySlug = ''red'', entryValue = ''#ff0000''\<rparr>]" "[]"
      "[Change TextChannel (Str ''#ff0000'')]" "fmupd ''textColor'' (Str ''blue'') fmempty"
      "mount fmempty"]
  by (rule conjunct1)

subsection \<open>Classes added on save\<close>

lemma hasGradientSupport_color: "hasGradientSupport bt \<Longrightarrow> hasColorSupport bt"
  by (auto simp: hasGradientSupport_def hasColorSupport_def hasBlockSupport_def Let_def
           split: jsval.splits)

lemma joinSpace_nonempty: "c \<in> set cs \<Longrightarrow> c \<noteq> [] \<Longrightarrow> joinSpace cs \<noteq> []"
  by (induction cs rule: joinSpace.induct) auto

lemma objectLiteral_three:
  "map fst (filter snd (objectLiteral [(k, False), (''has-text-color'', t), (''has-background'', True)]))
     = (if k = ''has-background'' then [''has-background''] @ (if t then [''has-text-color''] else [])
        else if k = ''has-text-color'' then (if t then [''has-text-color''] else []) @ [''has-background'']
        else (if t then [''has-text-color''] else []) @ [''has-background''])"
  by (simp add: objectLiteral_def)

lemma saveClasses_custom_gradient:
  assumes "hasGradientSupport bt"
    and "truthy (js_get (js_get (js_get (Obj attrs) ''style'') ''color'') ''gradient'')"
  shows "set (concat (map classesOf (saveClassArgs gcc ggc ps bt attrs)))
           = customGradientClasses gcc ggc ps attrs"
    and "className (addSaveProps gcc ggc ps bt attrs)
           = Some (joinSpace (concat (map classesOf (saveClassArgs gcc ggc ps bt attrs))))"
proof -
  show eq: "set (concat (map classesOf (saveClassArgs gcc ggc ps bt attrs)))
           = customGradientClasses gcc ggc ps attrs"
    using assms
    by (auto simp: saveClassArgs_def customGradientClasses_def Let_def objectLiteral_three
          simp del: classesOf.simps(1,2))
  have "''has-background'' \<in> set (concat (map classesOf (saveClassArgs gcc ggc ps bt attrs)))"
    unfolding eq by (simp add: customGradientClasses_def)
  then have "joinSpace (concat (map classesOf (saveClassArgs gcc ggc ps bt attrs))) \<noteq> []"
    by (rule joinSpace_nonempty) simp
  with hasGradientSupport_color[OF assms(1)]
  show "className (addSaveProps gcc ggc ps bt attrs)
           = Some (joinSpace (concat (map classesOf (saveClassArgs gcc ggc ps bt attrs))))"
    by (simp add: addSaveProps_def classnames_def Let_def)
qed

lemma custom_gradient_truthy:
  assumes "g \<noteq> []" and "\<forall>e\<in>set gradients. entryValue e \<noteq> g"
  shows "truthy (js_get (js_get (js_get (Obj (localAttributes (onChangeGradient gradients (Str g) s)))
           ''style'') ''color'') ''gradient'')"
proof -
  from assms(2) have "foundSlug gradients (Str g) = Undefined" by (rule foundSlug_no_value)
  with raw_after_gradient[of "localAttributes s" gradients "Str g"] assms(1)
  show ?thesis
    by (simp add: onChangeGradient_def commit_def gradientSlug_found)
qed

text \<open>
  C4. On a block type with gradient support, when the attributes hold an explicit
  gradient value in \<^verbatim>\<open>style.color.gradient\<close>, the classes that \<^verbatim>\<open>addSaveProps\<close> hands to
  \<^verbatim>\<open>classnames\<close> are exactly the classes the props already had, the text color class, the
  gradient class, \<^verbatim>\<open>has-text-color\<close> when a text color is set, and \<^verbatim>\<open>has-background\<close>: the
  class derived from the background slug is not among the classes added, whatever the
  background slug is, and \<^verbatim>\<open>className\<close> is their join. In particular this holds for the
  attributes that \<^verbatim>\<open>onChangeGradient\<close> produces for a non-empty value that no entry of the
  gradient catalog has.
\<close>

theorem addSaveProps_custom_gradient:
  "(hasGradientSupport bt
      \<and> truthy (js_get (js_get (js_get (Obj attrs) ''style'') ''color'') ''gradient'')
    \<longrightarrow> set (concat (map classesOf (saveClassArgs gcc ggc ps bt attrs)))
          = customGradientClasses gcc ggc ps attrs
        \<and> className (addSaveProps gcc ggc ps bt attrs)
          = Some (joinSpace (concat (map classesOf (saveClassArgs gcc ggc ps bt attrs)))))
   \<and> (hasGradientSupport bt \<and> g \<noteq> [] \<and> (\<forall>e\<in>set gradients. entryValue e \<noteq> g)
    \<longrightarrow> set (concat (map classesOf (saveClassArgs gcc ggc ps bt
            (localAttributes (onChangeGradient gradients (Str g) s)))))
          = customGradientClasses gcc ggc ps
              (localAttributes (onChangeGradient gradients (Str g) s))
        \<and> className (addSaveProps gcc ggc ps bt
            (localAttributes (onChangeGradient gradients (Str g) s)))
          = Some (joinSpace (concat (map classesOf (saveClassArgs gcc ggc ps bt
              (localAttributes (onChangeGradient gradients (Str g) s)))))))"
proof (intro conjI impI)
  assume a: "hasGradientSupport bt
      \<and> truthy (js_get (js_get (js_get (Obj attrs) ''style'') ''color'') ''gradient'')"
  then have h: "hasGradientSupport bt"
    and t: "truthy (js_get (js_get (js_get (Obj attrs) ''style'') ''color'') ''gradient'')"
    by blast+
  show "set (concat (map classesOf (saveClassArgs gcc ggc ps bt attrs)))
          = customGradientClasses gcc ggc ps attrs"
    by (rule saveClasses_custom_gradient(1)[OF h t])
  show "className (addSaveProps gcc ggc ps bt attrs)
          = Some (joinSpace (concat (map classesOf (saveClassArgs gcc ggc ps bt attrs))))"
    by (rule saveClasses_custom_gradient(2)[OF h t])
next
  assume a: "hasGradientSupport bt \<and> g \<noteq> [] \<and> (\<forall>e\<in>set gradients. entryValue e \<noteq> g)"
  then have h: "hasGradientSupport bt" and g: "g \<noteq> []"
    and n: "\<forall>e\<in>set gradients. entryValue e \<noteq> g"
    by blast+
  have t: "truthy (js_get (js_get (js_get
      (Obj (localAttributes (onChangeGradient gradients (Str g) s))) ''style'') ''color'') ''gradient'')"
    by (rule custom_gradient_truthy[OF g n])
  show "set (concat (map classesOf (saveClassArgs gcc ggc ps bt
            (localAttributes (onChangeGradient gradients (Str g) s)))))
          = customGradientClasses gcc ggc ps
              (localAttributes (onChangeGradient gradients (Str g) s))"
    by (rule saveClasses_custom_gradient(1)[OF h t])
  show "className (addSaveProps gcc ggc ps bt
            (localAttributes (onChangeGradient gradients (Str g) s)))
          = Some (joinSpace (concat (map classesOf (saveClassArgs gcc ggc ps bt
              (localAttributes (onChangeGradient gradients (Str g) s))))))"
    by (rule saveClasses_custom_gradient(2)[OF h t])
qed

text \<open>
  The theorem at the spec's example, a custom gradient applied to a snapshot with the
  background slug \<open>red\<close> on a gradient-enabled block type, with class names spelled as
  \<^verbatim>\<open>has-<slug>-<context>\<close>: the only class is \<^verbatim>\<open>has-background\<close>. With a text slug and a
  class of its own, the block keeps those and still gets no background color class.
\<close>

theorem addSaveProps_custom_gradient_witness:
  "hasGradientSupport
     \<lparr>supports = Obj (fmupd ''__experimentalColor''
                      (Obj (fmupd ''gradients'' (Bool True) fmempty)) fmempty),
      attributes = None\<rparr>
   \<and> className (addSaveProps
        (\<lambda>context slug. case slug of
            Str c \<Rightarrow> if c = [] then None else Some (''has-'' @ c @ ''-'' @ context)
          | _ \<Rightarrow> None)
        (\<lambda>slug. case slug of
            Str c \<Rightarrow> if c = [] then None else Some (''has-'' @ c @ ''-gradient-background'')
          | _ \<Rightarrow> None)
        \<lparr>className = None\<rparr>
        \<lparr>supports = Obj (fmupd ''__experimentalColor''
                         (Obj (fmupd ''gradients'' (Bool True) fmempty)) fmempty),
         attributes = None\<rparr>
        (localAttributes (onChangeGradient [] (Str ''linear-gradient(#000, #fff)'')
           (mount (fmupd ''backgroundColor'' (Str ''red'') fmempty)))))
     = Some ''has-background''
   \<and> className (addSaveProps
        (\<lambda>context slug. case slug of
            Str c \<Rightarrow> if c = [] then None else Some (''has-'' @ c @ ''-'' @ context)
          | _ \<Rightarrow> None)
        (\<lambda>slug. case slug of
            Str c \<Rightarrow> if c = [] then None else Some (''has-'' @ c @ ''-gradient-background'')
          | _ \<Rightarrow> None)
        \<lparr>className = Some ''wp-block''\<rparr>
        \<lparr>supports = Obj (fmupd ''__experimentalColor''
                         (Obj (fmupd ''gradients'' (Bool True) fmempty)) fmempty),
         attributes = None\<rparr>
        (fmupd ''backgroundColor'' (Str ''red'')
          (fmupd ''textColor'' (Str ''blue'')
            (fmupd ''style''
              (Obj (fmupd ''color''
                     (Obj (fmupd ''gradient'' (Str ''linear-gradient(#000, #fff)'') fmempty))
                     fmempty))
              fmempty))))
     = Some ''wp-block has-blue-color has-text-color has-background''"
proof -
  let ?gcc = "\<lambda>context slug. case slug of
            Str c \<Rightarrow> if c = [] then None else Some (''has-'' @ c @ ''-'' @ context)
          | _ \<Rightarrow> None"
  let ?ggc = "\<lambda>slug. case slug of
            Str c \<Rightarrow> if c = [] then None else Some (''has-'' @ c @ ''-gradient-background'')
          | _ \<Rightarrow> None"
  let ?bt = "\<lparr>supports = Obj (fmupd ''__experimentalColor''
                         (Obj (fmupd ''gradients'' (Bool True) fmempty)) fmempty),
         attributes = None\<rparr>"
  let ?a1 = "localAttributes (onChangeGradient [] (Str ''linear-gradient(#000, #fff)'')
           (mount (fmupd ''backgroundColor'' (Str ''red'') fmempty)))"
  let ?a2 = "fmupd ''backgroundColor'' (Str ''red'')
          (fmupd ''textColor'' (Str ''blue'')
            (fmupd ''style''
              (Obj (fmupd ''color''
                     (Obj (fmupd ''gradient'' (Str ''linear-gradient(#000, #fff)'') fmempty))
                     fmempty))
              fmempty))"
  have support: "hasGradientSupport ?bt"
    by (simp add: hasGradientSupport_def getBlockSupport_def COLOR_SUPPORT_KEY_def)
  have a1: "?a1 = fmupd ''gradient'' Undefined
      (fmupd ''style''
        (Obj (fmupd ''color''
               (Obj (fmupd ''gradient'' (Str ''linear-gradient(#000, #fff)'') fmempty)) fmempty))
        (fmupd ''backgroundColor'' (Str ''red'') fmempty))"
    by (simp add: onChangeGradient_def commit_def mount_def gradientNewAttributes_def
          gradientNewStyle_def gradientNewColor_def getGradientSlugByValue_def Let_def
          fmmap_fmupd)
  from addSaveProps_custom_gradient[of ?bt ?a2 ?gcc ?ggc "\<lparr>className = Some ''wp-block''\<rparr>"
      "''linear-gradient(#000, #fff)''" "[]" "mount (fmupd ''backgroundColor'' (Str ''red'') fmempty)"]
    support
  have second: "className (addSaveProps ?gcc ?ggc \<lparr>className = Some ''wp-block''\<rparr> ?bt ?a2)
      = Some ''wp-block has-blue-color has-text-color has-background''"
    by (simp add: saveClassArgs_def Let_def objectLiteral_def propertyKey_def truthyClass_def)
  from addSaveProps_custom_gradient[of ?bt ?a2 ?gcc ?ggc "\<lparr>className = None\<rparr>"
      "''linear-gradient(#000, #fff)''" "[]" "mount (fmupd ''backgroundColor'' (Str ''red'') fmempty)"]
    support
  have first: "className (addSaveProps ?gcc ?ggc \<lparr>className = None\<rparr> ?bt ?a1)
      = Some ''has-background''"
    unfolding a1
    by (simp add: saveClassArgs_def Let_def objectLiteral_def propertyKey_def truthyClass_def)
  from support first second show ?thesis by blast
qed

subsection \<open>Block types without color support\<close>

text \<open>
  C10. For a block type without color support, \<^verbatim>\<open>addSaveProps\<close> returns the props it was
  given, whatever the attributes are, and \<^verbatim>\<open>addAttributes\<close> returns the settings it was
  given, with no attribute added.
\<close>

theorem no_color_support_unchanged:
  assumes "\<not> hasColorSupport bt"
  shows "addSaveProps gcc ggc ps bt attrs = ps \<and> addAttributes bt = Inr bt"
  using assms by (simp add: addSaveProps_def addAttributes_def)

text \<open>The theorem at a block type that declares no supports.\<close>

theorem no_color_support_unchanged_witness:
  "\<not> hasColorSupport \<lparr>supports = Undefined, attributes = Some fmempty\<rparr>
   \<and> addSaveProps (\<lambda>context slug. None) (\<lambda>slug. None) \<lparr>className = Some ''wp-block''\<rparr>
        \<lparr>supports = Undefined, attributes = Some fmempty\<rparr>
        (fmupd ''backgroundColor'' (Str ''red'') fmempty)
       = \<lparr>className = Some ''wp-block''\<rparr>
   \<and> addAttributes \<lparr>supports = Undefined, attributes = Some fmempty\<rparr>
       = Inr \<lparr>supports = Undefined, attributes = Some fmempty\<rparr>"
proof -
  have none: "\<not> hasColorSupport \<lparr>supports = Undefined, attributes = Some fmempty\<rparr>"
    by (simp add: hasColorSupport_def hasBlockSupport_def getBlockSupport_def)
  from no_color_support_unchanged[OF none] none show ?thesis by blast
qed

subsection \<open>The gradient value of the panel\<close>

text \<open>
  C8. On a block type with gradient support, the \<^verbatim>\<open>gradientValue\<close> given to the panel is
  the forward lookup of the gradient slug whenever the slug is present: the value of the
  first catalog entry with that slug, and \<^verbatim>\<open>undefined\<close> when the catalog has no such
  entry, whatever the raw override is. Only when the slug is absent is it the raw
  override \<^verbatim>\<open>style?.color?.gradient\<close>, unchanged, whatever the catalog holds.
\<close>

theorem gradientValue_priority:
  assumes "hasGradientSupport bt"
  shows "(truthy (js_get (Obj attrs) ''gradient'') \<longrightarrow>
            gradientValue bt gradients attrs
              = getGradientValueBySlug gradients (js_get (Obj attrs) ''gradient''))
       \<and> (\<forall>e. truthy (js_get (Obj attrs) ''gradient'')
              \<and> find (\<lambda>e. Str (entrySlug e) = js_get (Obj attrs) ''gradient'') gradients = Some e
            \<longrightarrow> gradientValue bt gradients attrs = Str (entryValue e))
       \<and> (truthy (js_get (Obj attrs) ''gradient'')
            \<and> (\<forall>e\<in>set gradients. Str (entrySlug e) \<noteq> js_get (Obj attrs) ''gradient'')
            \<longrightarrow> gradientValue bt gradients attrs = Undefined)
       \<and> (\<not> truthy (js_get (Obj attrs) ''gradient'') \<longrightarrow>
            gradientValue bt gradients attrs
              = js_get (js_get (js_get (Obj attrs) ''style'') ''color'') ''gradient'')"
proof (intro conjI allI impI)
  assume t: "truthy (js_get (Obj attrs) ''gradient'')"
  with assms show "gradientValue bt gradients attrs
      = getGradientValueBySlug gradients (js_get (Obj attrs) ''gradient'')"
    by (simp add: gradientValue_def Let_def)
next
  fix e
  assume "truthy (js_get (Obj attrs) ''gradient'')
     \<and> find (\<lambda>e. Str (entrySlug e) = js_get (Obj attrs) ''gradient'') gradients = Some e"
  with assms show "gradientValue bt gradients attrs = Str (entryValue e)"
    by (simp add: gradientValue_def Let_def getGradientValueBySlug_def)
next
  assume a: "truthy (js_get (Obj attrs) ''gradient'')
     \<and> (\<forall>e\<in>set gradients. Str (entrySlug e) \<noteq> js_get (Obj attrs) ''gradient'')"
  then have "find (\<lambda>e. Str (entrySlug e) = js_get (Obj attrs) ''gradient'') gradients = None"
    by (simp add: find_None_iff)
  with a assms show "gradientValue bt gradients attrs = Undefined"
    by (simp add: gradientValue_def Let_def getGradientValueBySlug_def)
next
  assume "\<not> truthy (js_get (Obj attrs) ''gradient'')"
  with assms show "gradientValue bt gradients attrs
      = js_get (js_get (js_get (Obj attrs) ''style'') ''color'') ''gradient''"
    by (simp add: gradientValue_def Let_def)
qed

text \<open>
  The theorem at a slug of the catalog, at a slug that the catalog does not have (the raw
  override is not used in its place), and at a raw override without a slug.
\<close>

theorem gradientValue_priority_witness:
  "hasGradientSupport
     \<lparr>supports = Obj (fmupd ''__experimentalColor''
                      (Obj (fmupd ''gradients'' (Bool True) fmempty)) fmempty),
      attributes = None\<rparr>
   \<and> gradientValue
       \<lparr>supports = Obj (fmupd ''__experimentalColor''
                      (Obj (fmupd ''gradients'' (Bool True) fmempty)) fmempty),
        attributes = None\<rparr>
       [\<lparr>entrySlug = ''sky'', entryValue = ''linear-gradient(red, blue)''\<rparr>]
       (fmupd ''gradient'' (Str ''sky'') fmempty)
     = Str ''linear-gradient(red, blue)''
   \<and> gradientValue
       \<lparr>supports = Obj (fmupd ''__experimentalColor''
                      (Obj (fmupd ''gradients'' (Bool True) fmempty)) fmempty),
        attributes = None\<rparr>
       [\<lparr>entrySlug = ''sky'', entryValue = ''linear-gradient(red, blue)''\<rparr>]
       (fmupd ''gradient'' (Str ''dusk'')
         (fmupd ''style''
           (Obj (fmupd ''color''
                  (Obj (fmupd ''gradient'' (Str ''linear-gradient(#000, #fff)'') fmempty))
                  fmempty))
           fmempty))
     = Undefined
   \<and> gradientValue
       \<lparr>supports = Obj (fmupd ''__experimentalColor''
                      (Obj (fmupd ''gradients'' (Bool True) fmempty)) fmempty),
        attributes = None\<rparr>
       [\<lparr>entrySlug = ''sky'', entryValue = ''linear-gradient(red, blue)''\<rparr>]
       (fmupd ''style''
         (Obj (fmupd ''color''
                (Obj (fmupd ''gradient'' (Str ''linear-gradient(red, blue)'') fmempty))
                fmempty))
         fmempty)
     = Str ''linear-gradient(red, blue)''"
proof -
  let ?bt = "\<lparr>supports = Obj (fmupd ''__experimentalColor''
                      (Obj (fmupd ''gradients'' (Bool True) fmempty)) fmempty),
        attributes = None\<rparr>"
  let ?gradients = "[\<lparr>entrySlug = ''sky'', entryValue = ''linear-gradient(red, blue)''\<rparr>]"
  have support: "hasGradientSupport ?bt"
    by (simp add: hasGradientSupport_def getBlockSupport_def COLOR_SUPPORT_KEY_def)
  from gradientValue_priority[OF support, of "fmupd ''gradient'' (Str ''sky'') fmempty" ?gradients]
  have named: "gradientValue ?bt ?gradients (fmupd ''gradient'' (Str ''sky'') fmempty)
      = Str ''linear-gradient(red, blue)''"
    by (simp add: getGradientValueBySlug_def)
  from gradientValue_priority[OF support, of "fmupd ''gradient'' (Str ''dusk'')
         (fmupd ''style''
           (Obj (fmupd ''color''
                  (Obj (fmupd ''gradient'' (Str ''linear-gradient(#000, #fff)'') fmempty))
                  fmempty))
           fmempty)" ?gradients]
  have missing: "gradientValue ?bt ?gradients (fmupd ''gradient'' (Str ''dusk'')
         (fmupd ''style''
           (Obj (fmupd ''color''
                  (Obj (fmupd ''gradient'' (Str ''linear-gradient(#000, #fff)'') fmempty))
                  fmempty))
           fmempty)) = Undefined"
    by (simp add: getGradientValueBySlug_def)
  from gradientValue_priority[OF support, of "fmupd ''style''
         (Obj (fmupd ''color''
                (Obj (fmupd ''gradient'' (Str ''linear-gradient(red, blue)'') fmempty))
                fmempty))
         fmempty" ?gradients]
  have raw: "gradientValue ?bt ?gradients (fmupd ''style''
         (Obj (fmupd ''color''
                (Obj (fmupd ''gradient'' (Str ''linear-gradient(red, blue)'') fmempty))
                fmempty))
         fmempty) = Str ''linear-gradient(red, blue)''"
    by (simp add: getGradientValueBySlug_def)
  from support named missing raw show ?thesis by blast
qed

subsection \<open>The contrast sampler\<close>

lemma elementChain_nonempty: "elementChain n \<noteq> []"
  by (cases n rule: elementChain.cases) simp_all

lemma walkBackground_chain:
  "walkBackground n (computedBackgroundColor n) =
     (case find (\<lambda>m. computedBackgroundColor m \<noteq> ''rgba(0, 0, 0, 0)'') (elementChain n) of
        Some m \<Rightarrow> computedBackgroundColor m
      | None \<Rightarrow> computedBackgroundColor (last (elementChain n)))"
proof (induction n rule: elementChain.induct)
  case (1 c b t)
  show ?case by simp
next
  case (2 c b t p)
  show ?case
  proof (cases "b = ''rgba(0, 0, 0, 0)'' \<and> nodeType p = ELEMENT_NODE")
    case True
    then have "last (elementChain (Node c b t (Some p))) = last (elementChain p)"
      by (simp add: elementChain_nonempty)
    with True 2 show ?thesis by (simp split: option.split)
  next
    case False
    then show ?thesis by auto
  qed
qed

lemma detected_walk:
  "detectedBackgroundColor (detectColors (Some n) st)
     = Some (walkBackground n (computedBackgroundColor n))"
  by (simp add: detectColors_def)

text \<open>
  C3 (as amended). The sampler recognises full transparency by the computed value
  \<^verbatim>\<open>rgba(0, 0, 0, 0)\<close> alone. When the background of the sampled node has that value and
  its parent is an element, the detected background is the one detected from the parent.
  In every case the detected background is set, to the background of the first node
  whose value differs from \<^verbatim>\<open>rgba(0, 0, 0, 0)\<close>, among the node and its element ancestors
  in ascending order, and to that of the last of them when there is none. So a root whose
  background has any other value, fully transparent or not, is sampled as it is; and when
  the node and all its element ancestors are \<^verbatim>\<open>rgba(0, 0, 0, 0)\<close>, the detected background
  is that transparent value, read from the topmost element.
\<close>

theorem sampler_walks_transparent:
  "(computedBackgroundColor n = ''rgba(0, 0, 0, 0)''
      \<and> parentNode n = Some p \<and> nodeType p = ELEMENT_NODE
    \<longrightarrow> detectedBackgroundColor (detectColors (Some n) st)
          = detectedBackgroundColor (detectColors (Some p) st))
   \<and> detectedBackgroundColor (detectColors (Some n) st) =
       Some (case find (\<lambda>m. computedBackgroundColor m \<noteq> ''rgba(0, 0, 0, 0)'')
                    (elementChain n) of
               Some m \<Rightarrow> computedBackgroundColor m
             | None \<Rightarrow> computedBackgroundColor (last (elementChain n)))
   \<and> (computedBackgroundColor n \<noteq> ''rgba(0, 0, 0, 0)''
    \<longrightarrow> detectedBackgroundColor (detectColors (Some n) st)
          = Some (computedBackgroundColor n))
   \<and> ((\<forall>m\<in>set (elementChain n). computedBackgroundColor m = ''rgba(0, 0, 0, 0)'')
    \<longrightarrow> detectedBackgroundColor (detectColors (Some n) st) = Some ''rgba(0, 0, 0, 0)''
        \<and> detectedBackgroundColor (detectColors (Some n) st)
            = Some (computedBackgroundColor (last (elementChain n))))"
proof (intro conjI impI)
  assume "computedBackgroundColor n = ''rgba(0, 0, 0, 0)''
      \<and> parentNode n = Some p \<and> nodeType p = ELEMENT_NODE"
  then have "walkBackground n (computedBackgroundColor n)
          = walkBackground p (computedBackgroundColor p)"
    by (cases n) auto
  then show "detectedBackgroundColor (detectColors (Some n) st)
          = detectedBackgroundColor (detectColors (Some p) st)"
    by (simp only: detected_walk)
next
  show "detectedBackgroundColor (detectColors (Some n) st) =
       Some (case find (\<lambda>m. computedBackgroundColor m \<noteq> ''rgba(0, 0, 0, 0)'')
                    (elementChain n) of
               Some m \<Rightarrow> computedBackgroundColor m
             | None \<Rightarrow> computedBackgroundColor (last (elementChain n)))"
    by (simp only: detected_walk walkBackground_chain)
next
  assume "computedBackgroundColor n \<noteq> ''rgba(0, 0, 0, 0)''"
  then have "walkBackground n (computedBackgroundColor n) = computedBackgroundColor n"
    by (cases n rule: elementChain.cases) simp_all
  then show "detectedBackgroundColor (detectColors (Some n) st)
          = Some (computedBackgroundColor n)"
    by (simp only: detected_walk)
next
  assume all: "\<forall>m\<in>set (elementChain n). computedBackgroundColor m = ''rgba(0, 0, 0, 0)''"
  then have none:
    "find (\<lambda>m. computedBackgroundColor m \<noteq> ''rgba(0, 0, 0, 0)'') (elementChain n) = None"
    by (simp add: find_None_iff)
  have "last (elementChain n) \<in> set (elementChain n)"
    by (rule last_in_set) (rule elementChain_nonempty)
  with all have lastT: "computedBackgroundColor (last (elementChain n)) = ''rgba(0, 0, 0, 0)''"
    by blast
  have w: "walkBackground n (computedBackgroundColor n)
      = computedBackgroundColor (last (elementChain n))"
    unfolding walkBackground_chain none by simp
  show "detectedBackgroundColor (detectColors (Some n) st) = Some ''rgba(0, 0, 0, 0)''"
    by (simp only: detected_walk w lastT)
  show "detectedBackgroundColor (detectColors (Some n) st)
            = Some (computedBackgroundColor (last (elementChain n)))"
    by (simp only: detected_walk w)
qed

text \<open>
  The theorem at a block three elements below the document node, all
  \<^verbatim>\<open>rgba(0, 0, 0, 0)\<close>; at the same block under a white topmost element, where the detected
  background is the white found two steps up and not the block's own; and at a block
  with a background of its own.
\<close>

theorem sampler_walks_transparent_witness:
  "length (elementChain
        (Node ''rgb(0, 0, 0)'' ''rgba(0, 0, 0, 0)'' 1
          (Some (Node ''rgb(0, 0, 0)'' ''rgba(0, 0, 0, 0)'' 1
             (Some (Node ''rgb(0, 0, 0)'' ''rgba(0, 0, 0, 0)'' 1
                (Some (Node [] [] 9 None)))))))) = 3
   \<and> detectedBackgroundColor (detectColors
        (Some (Node ''rgb(0, 0, 0)'' ''rgba(0, 0, 0, 0)'' 1
          (Some (Node ''rgb(0, 0, 0)'' ''rgba(0, 0, 0, 0)'' 1
             (Some (Node ''rgb(0, 0, 0)'' ''rgba(0, 0, 0, 0)'' 1
                (Some (Node [] [] 9 None))))))))
        initialContrast) = Some ''rgba(0, 0, 0, 0)''
   \<and> detectedBackgroundColor (detectColors
        (Some (Node ''rgb(0, 0, 0)'' ''rgba(0, 0, 0, 0)'' 1
          (Some (Node ''rgb(0, 0, 0)'' ''rgba(0, 0, 0, 0)'' 1
             (Some (Node ''rgb(0, 0, 0)'' ''rgb(255, 255, 255)'' 1
                (Some (Node [] [] 9 None))))))))
        initialContrast) = Some ''rgb(255, 255, 255)''
   \<and> detectedBackgroundColor (detectColors
        (Some (Node ''rgb(0, 0, 0)'' ''rgba(0, 0, 0, 0)'' 1
          (Some (Node ''rgb(0, 0, 0)'' ''rgba(0, 0, 0, 0)'' 1
             (Some (Node ''rgb(0, 0, 0)'' ''rgb(255, 255, 255)'' 1
                (Some (Node [] [] 9 None))))))))
        initialContrast)
       = detectedBackgroundColor (detectColors
        (Some (Node ''rgb(0, 0, 0)'' ''rgba(0, 0, 0, 0)'' 1
             (Some (Node ''rgb(0, 0, 0)'' ''rgb(255, 255, 255)'' 1
                (Some (Node [] [] 9 None))))))
        initialContrast)
   \<and> detectedBackgroundColor (detectColors
        (Some (Node ''rgb(0, 0, 0)'' ''rgb(238, 238, 238)'' 1
          (Some (Node ''rgb(0, 0, 0)'' ''rgb(255, 255, 255)'' 1
             (Some (Node [] [] 9 None))))))
        initialContrast) = Some ''rgb(238, 238, 238)''"
proof -
  let ?doc = "Node [] [] 9 None"
  let ?top = "Node ''rgb(0, 0, 0)'' ''rgba(0, 0, 0, 0)'' 1 (Some ?doc)"
  let ?mid = "Node ''rgb(0, 0, 0)'' ''rgba(0, 0, 0, 0)'' 1 (Some ?top)"
  let ?root = "Node ''rgb(0, 0, 0)'' ''rgba(0, 0, 0, 0)'' 1 (Some ?mid)"
  let ?white = "Node ''rgb(0, 0, 0)'' ''rgb(255, 255, 255)'' 1 (Some ?doc)"
  let ?mid2 = "Node ''rgb(0, 0, 0)'' ''rgba(0, 0, 0, 0)'' 1 (Some ?white)"
  let ?root2 = "Node ''rgb(0, 0, 0)'' ''rgba(0, 0, 0, 0)'' 1 (Some ?mid2)"
  let ?grey = "Node ''rgb(0, 0, 0)'' ''rgb(238, 238, 238)'' 1 (Some ?white)"
  have chain: "elementChain ?root = [?root, ?mid, ?top]"
    by (simp add: ELEMENT_NODE_def)
  have all: "\<forall>m\<in>set (elementChain ?root). computedBackgroundColor m = ''rgba(0, 0, 0, 0)''"
    unfolding chain by simp
  from sampler_walks_transparent[of ?root ?mid initialContrast] all
  have sampled: "detectedBackgroundColor (detectColors (Some ?root) initialContrast)
      = Some ''rgba(0, 0, 0, 0)''"
    by blast
  have chain2: "elementChain ?root2 = [?root2, ?mid2, ?white]"
    by (simp add: ELEMENT_NODE_def)
  from sampler_walks_transparent[of ?root2 ?mid2 initialContrast]
  have "detectedBackgroundColor (detectColors (Some ?root2) initialContrast) =
       Some (case find (\<lambda>m. computedBackgroundColor m \<noteq> ''rgba(0, 0, 0, 0)'')
                    (elementChain ?root2) of
               Some m \<Rightarrow> computedBackgroundColor m
             | None \<Rightarrow> computedBackgroundColor (last (elementChain ?root2)))"
    by blast
  then have found: "detectedBackgroundColor (detectColors (Some ?root2) initialContrast)
      = Some ''rgb(255, 255, 255)''"
    unfolding chain2 by simp
  have step_hyp: "computedBackgroundColor ?root2 = ''rgba(0, 0, 0, 0)''
      \<and> parentNode ?root2 = Some ?mid2 \<and> nodeType ?mid2 = ELEMENT_NODE"
    by (simp add: ELEMENT_NODE_def)
  from sampler_walks_transparent[of ?root2 ?mid2 initialContrast] step_hyp
  have up: "detectedBackgroundColor (detectColors (Some ?root2) initialContrast)
      = detectedBackgroundColor (detectColors (Some ?mid2) initialContrast)"
    by blast
  have own_hyp: "computedBackgroundColor ?grey \<noteq> ''rgba(0, 0, 0, 0)''"
    by simp
  from sampler_walks_transparent[of ?grey ?white initialContrast] own_hyp
  have own: "detectedBackgroundColor (detectColors (Some ?grey) initialContrast)
      = Some ''rgb(238, 238, 238)''"
    by simp
  have len: "length (elementChain ?root) = 3"
    unfolding chain by simp
  from len sampled found up own show ?thesis by blast
qed

text \<open>
  C3 as stated fails for a background that is fully transparent in another encoding: a
  block whose computed background is white with alpha zero, \<^verbatim>\<open>rgba(255, 255, 255, 0)\<close>,
  inside a white element. The loop compares with \<^verbatim>\<open>rgba(0, 0, 0, 0)\<close>, so it does not
  walk to the parent, and the detected background is the block's own transparent value,
  not the white behind it.
\<close>

theorem alpha_zero_not_walked_counterexample:
  "denotesFullTransparency ''rgba(0, 0, 0, 0)''
   \<and> denotesFullTransparency ''rgba(255, 255, 255, 0)''
   \<and> parentNode (Node ''rgb(0, 0, 0)'' ''rgba(255, 255, 255, 0)'' 1
        (Some (Node ''rgb(0, 0, 0)'' ''rgb(255, 255, 255)'' 1 (Some (Node [] [] 9 None)))))
       = Some (Node ''rgb(0, 0, 0)'' ''rgb(255, 255, 255)'' 1 (Some (Node [] [] 9 None)))
   \<and> nodeType (Node ''rgb(0, 0, 0)'' ''rgb(255, 255, 255)'' 1 (Some (Node [] [] 9 None)))
       = ELEMENT_NODE
   \<and> detectedBackgroundColor (detectColors
        (Some (Node ''rgb(0, 0, 0)'' ''rgba(255, 255, 255, 0)'' 1
           (Some (Node ''rgb(0, 0, 0)'' ''rgb(255, 255, 255)'' 1 (Some (Node [] [] 9 None))))))
        initialContrast) = Some ''rgba(255, 255, 255, 0)''
   \<and> detectedBackgroundColor (detectColors
        (Some (Node ''rgb(0, 0, 0)'' ''rgb(255, 255, 255)'' 1 (Some (Node [] [] 9 None))))
        initialContrast) = Some ''rgb(255, 255, 255)''"
  by (simp add: denotesFullTransparency_def detectColors_def ELEMENT_NODE_def)

text \<open>
  C9 (as amended). When \<^verbatim>\<open>getBlockDOMNode\<close> returns nothing, the effect returns at once:
  nothing is raised and the two detected colors are left as they were, which is
  \<^verbatim>\<open>undefined\<close> for both when no sample was taken since the panel was mounted.
\<close>

theorem detectColors_absent_node:
  "detectColors None st = st
   \<and> detectColors None initialContrast
       = \<lparr>detectedBackgroundColor = None, detectedColor = None\<rparr>"
  by (simp add: detectColors_def initialContrast_def)

text \<open>The theorem at a sample that an earlier run of the effect has set.\<close>

theorem detectColors_absent_node_witness:
  "detectColors None
     \<lparr>detectedBackgroundColor = Some ''rgb(255, 255, 255)'', detectedColor = Some ''rgb(0, 0, 0)''\<rparr>
     = \<lparr>detectedBackgroundColor = Some ''rgb(255, 255, 255)'', detectedColor = Some ''rgb(0, 0, 0)''\<rparr>"
  using detectColors_absent_node[of
      "\<lparr>detectedBackgroundColor = Some ''rgb(255, 255, 255)'', detectedColor = Some ''rgb(0, 0, 0)''\<rparr>"]
  by (rule conjunct1)

text \<open>
  C9 as stated fails after an earlier sample: the effect runs once with the block's node
  present, black text on white, and once more with the node absent; the sample is then
  still black on white, not \<^verbatim>\<open>undefined\<close> twice.
\<close>

theorem stale_sample_counterexample:
  "detectColors None
     (detectColors (Some (Node ''rgb(0, 0, 0)'' ''rgb(255, 255, 255)'' 1 None)) initialContrast)
     = \<lparr>detectedBackgroundColor = Some ''rgb(255, 255, 255)'',
        detectedColor = Some ''rgb(0, 0, 0)''\<rparr>"
  by (simp add: detectColors_def initialContrast_def)

end
